theory Spec2Isabelle
  imports Complex_Main
begin

section \<open>Strings of the host language\<close>

text \<open>
  A JavaScript string is a sequence of UTF-16 code units; \<open>String.prototype.includes\<close>
  compares code units. The phrases of \<^verbatim>\<open>LiveInterface.tsx\<close> use precomposed
  Latin-1 letters: a with circumflex is 226, a with tilde 227, c with cedilla 231 and
  i with acute 237.
\<close>

type_synonym jsstring = "nat list"

definition ascii :: "string \<Rightarrow> jsstring" where
  "ascii cs = map of_char cs"

text \<open>\<^verbatim>\<open>s.includes(p)\<close>: \<open>p\<close> occurs in \<open>s\<close> at some position.\<close>

fun js_includes :: "jsstring \<Rightarrow> jsstring \<Rightarrow> bool" where
  "js_includes [] p = (p = [])"
| "js_includes (c # cs) p = (take (length p) (c # cs) = p \<or> js_includes cs p)"

text \<open>Truthiness of an optional string: \<^verbatim>\<open>undefined\<close> and \<^verbatim>\<open>''\<close> are falsy.\<close>

definition truthy :: "jsstring option \<Rightarrow> bool" where
  "truthy x = (case x of None \<Rightarrow> False | Some t \<Rightarrow> t \<noteq> [])"

text \<open>
  \<open>String.prototype.toLowerCase\<close> is a built-in of the host and a parameter of the
  transcript handler below. This instance is the Unicode lower-case mapping on Basic Latin
  and the Latin-1 Supplement (the alphabet of the deployed vocabulary); it is used where a
  concrete transcript is evaluated.
\<close>

definition toLowerCase_latin1 :: "jsstring \<Rightarrow> jsstring" where
  "toLowerCase_latin1 t =
     map (\<lambda>c. if (65 \<le> c \<and> c \<le> 90) \<or> (192 \<le> c \<and> c \<le> 222 \<and> c \<noteq> 215) then c + 32 else c) t"

section \<open>Data of the live interface\<close>

datatype video_kind = camera | screen

text \<open>
  A stream returned by \<^verbatim>\<open>getUserMedia({video})\<close> or \<^verbatim>\<open>getDisplayMedia\<close>: its first
  video track (\<^verbatim>\<open>getVideoTracks()[0]\<close>) and its other tracks, as track handles.
\<close>

record media_stream =
  videoTrack :: nat
  otherTracks :: "nat list"

definition getTracks :: "media_stream \<Rightarrow> nat list" where
  "getTracks st = videoTrack st # otherTracks st"

text \<open>The \<^verbatim>\<open><video>\<close> element behind \<^verbatim>\<open>videoRef\<close>.\<close>

record video_element =
  srcObject :: "media_stream option"
  paused :: bool
  ended :: bool
  videoWidth :: nat
  videoHeight :: nat

text \<open>An \<^verbatim>\<open>AudioBuffer\<close>: \<^verbatim>\<open>duration\<close> is \<^verbatim>\<open>length / sampleRate\<close>.\<close>

record audio_buffer =
  frames :: nat
  sampleRate :: nat

definition duration :: "audio_buffer \<Rightarrow> real" where
  "duration b = real (frames b) / real (sampleRate b)"

text \<open>A caught exception: \<^verbatim>\<open>e.name\<close> and \<^verbatim>\<open>e.message\<close>.\<close>

record js_error =
  name :: jsstring
  message :: "jsstring option"

text \<open>The fields of \<^verbatim>\<open>LiveServerMessage\<close> that \<^verbatim>\<open>onmessage\<close> reads.\<close>

record server_message =
  inputTranscription :: "jsstring option"
  audioData :: "jsstring option"
  interrupted :: bool

text \<open>The values of \<^verbatim>\<open>isConnected\<close> and \<^verbatim>\<open>isMuted\<close> that the closures of one render hold.\<close>

record render =
  r_isConnected :: bool
  r_isMuted :: bool

text \<open>
  What an \<^verbatim>\<open>async\<close> function of the component waits for at an \<^verbatim>\<open>await\<close>: a device,
  \<^verbatim>\<open>video.play()\<close>, or \<^verbatim>\<open>decodeAudioData\<close> for the message being handled; and how it
  settles.
\<close>

datatype awaited =
    GetDisplayMedia
  | GetUserMediaVideo
  | GetUserMediaAudio
  | VideoPlay
  | DecodeAudioData server_message

datatype settlement =
    StreamSettled "js_error + media_stream"
  | MicSettled "js_error + nat list"
  | PlaySettled "js_error option"
  | DecodeSettled "audio_buffer option"

datatype media = AudioBlock jsstring | VideoFrame jsstring

text \<open>
  One call of \<^verbatim>\<open>ai.live.connect\<close>: the closure of its callbacks holds the value of
  \<^verbatim>\<open>isMuted\<close> of the render in which \<^verbatim>\<open>connectToLive\<close> was called, the script
  processor (a node of the input context of that moment), and whether
  \<^verbatim>\<open>processor.onaudioprocess\<close> has been installed.
\<close>

record connection =
  conn_isMuted :: bool
  conn_input :: nat
  processing :: bool

text \<open>
  The component's state (\<^verbatim>\<open>useState\<close>), its refs (\<^verbatim>\<open>useRef\<close>), and the part of the
  browser the code acts on: audio contexts by number, buffer sources by their index in
  \<open>started\<close> (start time and duration, in seconds, as real numbers: the rounding of the
  host's doubles is not modelled), interval timers by handle (with the session
  promise their closure holds), media tracks, the awaits begun so far (each with the
  render whose closure waits, \<open>settled\<close> holding the indices of those already resumed),
  and the \<^verbatim>\<open>sendRealtimeInput\<close> calls chained on each session promise.
\<close>

record state =
  isConnected :: bool
  isMuted :: bool
  volumeLevel :: real
  outputVolume :: real
  videoSource :: "video_kind option"
  error :: "jsstring option"
  isSleepMode :: bool
  pendingAction :: "video_kind option"
  isAiSpeaking :: bool
  audioContextRef :: "nat option"
  inputContextRef :: "nat option"
  nextStartTimeRef :: real
  sourcesRef :: "nat set"
  sessionRef :: "nat option"
  outputAnalyserRef :: "nat option"
  isSleepModeRef :: bool
  videoSourceRef :: "video_kind option"
  videoRef :: "video_element option"
  canvasRef :: bool
  canvasSize :: "nat \<times> nat"
  streamRef :: "media_stream option"
  frameIntervalRef :: "nat option"
  contextCount :: nat
  closedContexts :: "nat list"
  activationSounds :: "nat list"
  started :: "(real \<times> real) list"
  stopped :: "nat set"
  timers :: "nat \<rightharpoonup> nat"
  timerCount :: nat
  stoppedTracks :: "nat set"
  micTracks :: "nat set"
  awaits :: "(awaited \<times> render) list"
  settled :: "nat set"
  connections :: "connection list"
  sent :: "(nat \<times> media) list"

text \<open>The state of a freshly mounted component.\<close>

definition initial_state :: state where
  "initial_state =
     \<lparr>isConnected = False, isMuted = False, volumeLevel = 0, outputVolume = 0,
      videoSource = None, error = None, isSleepMode = False, pendingAction = None,
      isAiSpeaking = False, audioContextRef = None, inputContextRef = None,
      nextStartTimeRef = 0, sourcesRef = {}, sessionRef = None, outputAnalyserRef = None,
      isSleepModeRef = False, videoSourceRef = None,
      videoRef = Some \<lparr>srcObject = None, paused = True, ended = False,
                        videoWidth = 0, videoHeight = 0\<rparr>,
      canvasRef = True, canvasSize = (300, 150), streamRef = None, frameIntervalRef = None,
      contextCount = 0, closedContexts = [], activationSounds = [], started = [],
      stopped = {}, timers = Map.empty, timerCount = 0, stoppedTracks = {}, micTracks = {},
      awaits = [], settled = {}, connections = [], sent = []\<rparr>"

section \<open>Sleep mode and the playback flush\<close>

text \<open>\<^verbatim>\<open>playActivationSound\<close> (lines 39-62): a ping on the output context, if there is one.\<close>

definition playActivationSound :: "state \<Rightarrow> state" where
  "playActivationSound s =
     (case audioContextRef s of
        None \<Rightarrow> s
      | Some c \<Rightarrow> s\<lparr>activationSounds := activationSounds s @ [c]\<rparr>)"

text \<open>
  The three statements that the code repeats at lines 75-77 and 367-369: stop every source
  in flight, clear the set, reset the playback clock.
\<close>

definition flush_playback :: "state \<Rightarrow> state" where
  "flush_playback s =
     s\<lparr>stopped := stopped s \<union> sourcesRef s, sourcesRef := {}, nextStartTimeRef := 0\<rparr>"

text \<open>\<^verbatim>\<open>setSleepState\<close> (lines 65-83).\<close>

definition setSleepState :: "bool \<Rightarrow> state \<Rightarrow> state" where
  "setSleepState sleep s =
     (if isSleepModeRef s = sleep then s
      else
        let s1 = s\<lparr>isSleepModeRef := sleep, isSleepMode := sleep\<rparr>
        in if sleep then (flush_playback s1)\<lparr>isAiSpeaking := False\<rparr>
           else playActivationSound s1)"

section \<open>Video stream and frame timer\<close>

text \<open>
  \<^verbatim>\<open>stopVideoStream\<close> (lines 86-100). A timer handle is tested for truthiness, so the
  handle 0 would count as absent; \<^verbatim>\<open>setInterval\<close> returns positive handles.
\<close>

definition stopVideoStream :: "state \<Rightarrow> state" where
  "stopVideoStream s =
     (let s1 = (case frameIntervalRef s of
                  None \<Rightarrow> s
                | Some t \<Rightarrow> if t \<noteq> 0
                           then s\<lparr>timers := (timers s)(t := None), frameIntervalRef := None\<rparr>
                           else s);
          s2 = (case streamRef s1 of
                  None \<Rightarrow> s1
                | Some st \<Rightarrow> s1\<lparr>stoppedTracks := stoppedTracks s1 \<union> set (getTracks st),
                               streamRef := None\<rparr>);
          s3 = (case videoRef s2 of
                  None \<Rightarrow> s2
                | Some v \<Rightarrow> s2\<lparr>videoRef := Some (v\<lparr>srcObject := None\<rparr>)\<rparr>)
      in s3\<lparr>videoSource := None, videoSourceRef := None\<rparr>)"

text \<open>\<^verbatim>\<open>cleanup\<close> (lines 103-123).\<close>

definition cleanup :: "state \<Rightarrow> state" where
  "cleanup s =
     (let s1 = stopVideoStream s;
          s2 = s1\<lparr>sessionRef := None\<rparr>;
          s3 = (case audioContextRef s2 of
                  None \<Rightarrow> s2
                | Some c \<Rightarrow> s2\<lparr>closedContexts := closedContexts s2 @ [c],
                              audioContextRef := None\<rparr>);
          s4 = (case inputContextRef s3 of
                  None \<Rightarrow> s3
                | Some c \<Rightarrow> s3\<lparr>closedContexts := closedContexts s3 @ [c],
                              inputContextRef := None\<rparr>);
          s5 = s4\<lparr>sourcesRef := {}, isConnected := False, volumeLevel := 0, outputVolume := 0\<rparr>;
          s6 = setSleepState False s5
      in s6\<lparr>pendingAction := None, isAiSpeaking := False\<rparr>)"

text \<open>
  \<^verbatim>\<open>startFrameTransmission\<close> (lines 125-159). The argument is the optional
  \<^verbatim>\<open>currentSessionPromise\<close>; \<open>canvasRef\<close> says that the canvas and its 2D context exist.
\<close>

definition startFrameTransmission :: "nat option \<Rightarrow> state \<Rightarrow> state" where
  "startFrameTransmission currentSessionPromise s =
     (let s1 = (case frameIntervalRef s of
                  None \<Rightarrow> s
                | Some t \<Rightarrow> if t \<noteq> 0 then s\<lparr>timers := (timers s)(t := None)\<rparr> else s)
      in if \<not> canvasRef s1 then s1
         else
           case (case currentSessionPromise of Some p \<Rightarrow> Some p | None \<Rightarrow> sessionRef s1) of
             None \<Rightarrow> s1
           | Some sessionToUse \<Rightarrow>
               let t = Suc (timerCount s1)
               in s1\<lparr>timers := (timers s1)(t \<mapsto> sessionToUse), timerCount := t,
                      frameIntervalRef := Some t\<rparr>)"

text \<open>
  The interval callback (lines 136-158), for the session promise \<open>sessionToUse\<close> of its
  closure; \<open>base64\<close> is what \<^verbatim>\<open>canvas.toDataURL('image/jpeg', 0.5)\<close> yields for the frame.
\<close>

definition frame_tick :: "nat \<Rightarrow> jsstring \<Rightarrow> state \<Rightarrow> state" where
  "frame_tick sessionToUse base64 s =
     (case videoRef s of
        None \<Rightarrow> s
      | Some v \<Rightarrow>
          if paused v \<or> ended v then s
          else if videoWidth v = 0 then s
          else s\<lparr>canvasSize := (videoWidth v, videoHeight v),
                 sent := sent s @ [(sessionToUse, VideoFrame base64)]\<rparr>)"

section \<open>Connecting\<close>

text \<open>
  What the code takes from its host: \<^verbatim>\<open>String.prototype.toLowerCase\<close>,
  \<^verbatim>\<open>process.env.API_KEY\<close>, and the \<^verbatim>\<open>TypeError\<close> the engine raises when a property of
  \<^verbatim>\<open>null\<close> is read.
\<close>

record host =
  toLowerCase :: "jsstring \<Rightarrow> jsstring"
  API_KEY :: "jsstring option"
  nullTypeError :: js_error

definition current_render :: "state \<Rightarrow> render" where
  "current_render s = \<lparr>r_isConnected = isConnected s, r_isMuted = isMuted s\<rparr>"

text \<open>The \<^verbatim>\<open>catch\<close> block of \<^verbatim>\<open>connectToLive\<close> (lines 395-398).\<close>

definition connectToLive_catch :: "js_error \<Rightarrow> state \<Rightarrow> state" where
  "connectToLive_catch err s =
     cleanup (s\<lparr>error := Some (if truthy (message err) then the (message err)
                                 else ascii ''Falha ao iniciar sistemas.'')\<rparr>)"

text \<open>
  \<^verbatim>\<open>connectToLive\<close> up to \<^verbatim>\<open>await getUserMedia({audio: true})\<close> (lines 225-243): the
  output context, its analyser and the input context are created and the microphone is
  requested; with no credential the error is caught at once. \<open>r\<close> is the render whose
  \<^verbatim>\<open>connectToLive\<close> is called.
\<close>

definition connectToLive :: "host \<Rightarrow> render \<Rightarrow> state \<Rightarrow> state" where
  "connectToLive h r s =
     (let s0 = s\<lparr>error := None\<rparr>
      in if \<not> truthy (API_KEY h)
         then connectToLive_catch \<lparr>name = ascii ''Error'',
                                    message = Some (ascii ''API Key faltante.'')\<rparr> s0
         else
           let out = contextCount s0; inp = Suc out
           in s0\<lparr>audioContextRef := Some out, outputAnalyserRef := Some out,
                   inputContextRef := Some inp, contextCount := Suc inp,
                   awaits := awaits s0 @ [(GetUserMediaAudio, r)]\<rparr>)"

text \<open>
  \<^verbatim>\<open>connectToLive\<close> from the settlement of the microphone request (lines 243-393):
  \<open>muted\<close> is the \<^verbatim>\<open>isMuted\<close> of the closure. A granted microphone stream is held by
  the page from here on, whatever follows.
\<close>

definition connectToLive_mic :: "host \<Rightarrow> bool \<Rightarrow> js_error + nat list \<Rightarrow> state \<Rightarrow> state" where
  "connectToLive_mic h muted res s =
     (case res of
        Inl err \<Rightarrow> connectToLive_catch err s
      | Inr micStream \<Rightarrow>
          let s1 = s\<lparr>micTracks := micTracks s \<union> set micStream\<rparr>
          in case inputContextRef s1 of
               None \<Rightarrow> connectToLive_catch (nullTypeError h) s1
             | Some inp \<Rightarrow>
                 let sessionPromise = length (connections s1)
                 in s1\<lparr>connections := connections s1 @
                          [\<lparr>conn_isMuted = muted, conn_input = inp, processing = False\<rparr>],
                        sessionRef := Some sessionPromise\<rparr>)"

text \<open>\<^verbatim>\<open>handleMainToggle\<close> (lines 401-407).\<close>

definition handleMainToggle :: "host \<Rightarrow> state \<Rightarrow> state" where
  "handleMainToggle h s =
     (if isConnected s then cleanup s else connectToLive h (current_render s) s)"

section \<open>Toggling video\<close>

text \<open>The \<^verbatim>\<open>catch\<close> block of \<^verbatim>\<open>toggleVideo\<close> (lines 212-222).\<close>

definition toggleVideo_catch :: "js_error \<Rightarrow> state \<Rightarrow> state" where
  "toggleVideo_catch e s =
     stopVideoStream
       (s\<lparr>error := Some
            (if name e = ascii ''NotAllowedError''
             then ascii ''Permiss'' @ [227] @ ascii ''o negada (Navegador requer intera''
                  @ [231, 227] @ ascii ''o manual).''
             else if name e = ascii ''SecurityError'' \<or>
                     (case message e of
                        None \<Rightarrow> False
                      | Some m \<Rightarrow> js_includes m (ascii ''permissions policy''))
             then ascii ''Bloqueado pela pol'' @ [237] @ ascii ''tica do navegador.''
             else ascii ''Erro ao acessar v'' @ [237] @ ascii ''deo: ''
                  @ (if truthy (message e) then the (message e)
                     else ascii ''Desconhecido''))\<rparr>)"

text \<open>
  \<^verbatim>\<open>toggleVideo\<close> up to the device request (lines 162-182): asking for the active source
  stops the video and returns; otherwise the screen or the camera is requested.
\<close>

definition toggleVideo :: "video_kind \<Rightarrow> state \<Rightarrow> state" where
  "toggleVideo type s =
     (if videoSourceRef s = Some type then stopVideoStream s
      else s\<lparr>awaits := awaits s @
                [(if type = screen then GetDisplayMedia else GetUserMediaVideo,
                  current_render s)]\<rparr>)"

text \<open>
  The last step of \<^verbatim>\<open>toggleVideo\<close> (lines 205-210), for the render \<open>r\<close> the call
  belongs to: \<^verbatim>\<open>connectToLive\<close> of that render, or the frame timer.
\<close>

definition toggleVideo_transmit :: "host \<Rightarrow> render \<Rightarrow> state \<Rightarrow> state" where
  "toggleVideo_transmit h r s =
     (if \<not> r_isConnected r \<and> sessionRef s = None then connectToLive h r s
      else startFrameTransmission None s)"

text \<open>
  \<^verbatim>\<open>toggleVideo\<close> from the settlement of the device request (lines 184-203): the old
  stream is stopped, the new one stored and attached; with a video element the function
  waits for \<^verbatim>\<open>play()\<close>, without one it goes on at once.
\<close>

definition toggleVideo_stream ::
  "host \<Rightarrow> video_kind \<Rightarrow> render \<Rightarrow> js_error + media_stream \<Rightarrow> state \<Rightarrow> state" where
  "toggleVideo_stream h type r res s =
     (case res of
        Inl e \<Rightarrow> toggleVideo_catch e s
      | Inr stream \<Rightarrow>
          let s1 = (case streamRef s of
                      None \<Rightarrow> s
                    | Some old \<Rightarrow> s\<lparr>stoppedTracks := stoppedTracks s \<union> set (getTracks old)\<rparr>);
              s2 = s1\<lparr>streamRef := Some stream, videoSource := Some type,
                      videoSourceRef := Some type\<rparr>
          in case videoRef s2 of
               None \<Rightarrow> toggleVideo_transmit h r s2
             | Some v \<Rightarrow> s2\<lparr>videoRef := Some (v\<lparr>srcObject := Some stream\<rparr>),
                            awaits := awaits s2 @ [(VideoPlay, r)]\<rparr>)"

text \<open>\<^verbatim>\<open>toggleVideo\<close> from the settlement of \<^verbatim>\<open>play()\<close> (lines 202-222).\<close>

definition toggleVideo_played :: "host \<Rightarrow> render \<Rightarrow> js_error option \<Rightarrow> state \<Rightarrow> state" where
  "toggleVideo_played h r res s =
     (case res of
        Some e \<Rightarrow> toggleVideo_catch e s
      | None \<Rightarrow> toggleVideo_transmit h r s)"

section \<open>Callbacks of the live session\<close>

text \<open>
  \<^verbatim>\<open>updateVolume\<close> (lines 254-277), one animation frame: the arguments are the byte
  frequency data of the input and of the output analyser.
\<close>

definition updateVolume :: "nat list \<Rightarrow> nat list \<Rightarrow> state \<Rightarrow> state" where
  "updateVolume inputDataArray outputDataArray s =
     (if sessionRef s = None then s
      else
        let inputAvg = real (sum_list inputDataArray) / real (length inputDataArray);
            s1 = s\<lparr>volumeLevel := inputAvg / 255\<rparr>
        in case outputAnalyserRef s1 of
             None \<Rightarrow> s1
           | Some a \<Rightarrow>
               let outputAvg = real (sum_list outputDataArray) / real (length outputDataArray)
               in s1\<lparr>outputVolume := outputAvg / 255, isAiSpeaking := (10 < outputAvg)\<rparr>)"

text \<open>
  \<^verbatim>\<open>onopen\<close> (lines 283-307) of the connection \<open>sessionPromise\<close>, with the analyser
  data of its call of \<^verbatim>\<open>updateVolume\<close>; the later animation frames are events of their
  own.
\<close>

definition onopen :: "nat \<Rightarrow> nat list \<Rightarrow> nat list \<Rightarrow> state \<Rightarrow> state" where
  "onopen sessionPromise inputDataArray outputDataArray s =
     (case inputContextRef s of
        None \<Rightarrow> s
      | Some inp \<Rightarrow>
          let s1 = s\<lparr>isConnected := True\<rparr>;
              s2 = updateVolume inputDataArray outputDataArray s1;
              s3 = s2\<lparr>connections := (connections s2)
                       [sessionPromise := (connections s2 ! sessionPromise)\<lparr>processing := True\<rparr>]\<rparr>
          in if streamRef s3 \<noteq> None then startFrameTransmission (Some sessionPromise) s3
             else s3)"

text \<open>
  \<^verbatim>\<open>processor.onaudioprocess\<close> (lines 294-299): \<open>muted\<close> is the \<^verbatim>\<open>isMuted\<close> of the
  closure, \<open>pcmBlob\<close> the encoded block.
\<close>

definition onaudioprocess :: "bool \<Rightarrow> nat \<Rightarrow> jsstring \<Rightarrow> state \<Rightarrow> state" where
  "onaudioprocess muted sessionPromise pcmBlob s =
     (if muted then s
      else s\<lparr>sent := sent s @ [(sessionPromise, AudioBlock pcmBlob)]\<rparr>)"

text \<open>The phrase tests of lines 316, 322, 327, 330 and 333, on the lower-cased transcript.\<close>

definition wake_phrase :: "jsstring \<Rightarrow> bool" where
  "wake_phrase command \<longleftrightarrow>
     js_includes command (ascii ''aura'') \<or> js_includes command (ascii ''acordar'') \<or>
     js_includes command (ascii ''ativar'') \<or> js_includes command (ascii ''oi'')"

definition sleep_phrase :: "jsstring \<Rightarrow> bool" where
  "sleep_phrase command \<longleftrightarrow>
     js_includes command (ascii ''silenciar'') \<or>
     js_includes command (ascii ''modo de espera'') \<or>
     js_includes command (ascii ''dormir'')"

definition camera_phrase :: "jsstring \<Rightarrow> bool" where
  "camera_phrase command \<longleftrightarrow>
     js_includes command (ascii ''abrir c'' @ [226] @ ascii ''mera'') \<or>
     js_includes command (ascii ''ligar c'' @ [226] @ ascii ''mera'')"

definition screen_phrase :: "jsstring \<Rightarrow> bool" where
  "screen_phrase command \<longleftrightarrow>
     js_includes command (ascii ''compartilhar tela'') \<or>
     js_includes command (ascii ''mostrar tela'')"

definition close_phrase :: "jsstring \<Rightarrow> bool" where
  "close_phrase command \<longleftrightarrow>
     js_includes command (ascii ''fechar v'' @ [237] @ ascii ''deo'') \<or>
     js_includes command (ascii ''parar v'' @ [237] @ ascii ''deo'') \<or>
     js_includes command (ascii ''parar tela'')"

text \<open>The voice commands of \<^verbatim>\<open>onmessage\<close> (lines 310-337).\<close>

definition voice_command :: "host \<Rightarrow> server_message \<Rightarrow> state \<Rightarrow> state" where
  "voice_command h msg s =
     (if \<not> truthy (inputTranscription msg) then s
      else
        let command = toLowerCase h (the (inputTranscription msg))
        in if isSleepModeRef s
           then (if wake_phrase command then setSleepState False s else s)
           else if sleep_phrase command then setSleepState True s
           else if camera_phrase command
           then (if videoSourceRef s \<noteq> Some camera then s\<lparr>pendingAction := Some camera\<rparr>
                 else s)
           else if screen_phrase command
           then (if videoSourceRef s \<noteq> Some screen then s\<lparr>pendingAction := Some screen\<rparr>
                 else s)
           else if close_phrase command
           then (if videoSourceRef s \<noteq> None then stopVideoStream s else s)
           else s)"

text \<open>The interruption test that ends \<^verbatim>\<open>onmessage\<close> (lines 366-370).\<close>

definition onmessage_interrupted :: "server_message \<Rightarrow> state \<Rightarrow> state" where
  "onmessage_interrupted msg s = (if interrupted msg then flush_playback s else s)"

text \<open>
  \<^verbatim>\<open>onmessage\<close> up to \<^verbatim>\<open>await decodeAudioData\<close> (lines 308-348); \<open>currentTime\<close> is the
  clock of the output context. The result holds the index of the await if the handler
  now waits for the decoder; if it does not, it has run to its end.
\<close>

definition onmessage_begin ::
  "host \<Rightarrow> server_message \<Rightarrow> real \<Rightarrow> state \<Rightarrow> state \<times> nat option" where
  "onmessage_begin h msg currentTime s =
     (let s1 = voice_command h msg s
      in if truthy (audioData msg) \<and> audioContextRef s1 \<noteq> None \<and> \<not> isSleepModeRef s1
         then (s1\<lparr>nextStartTimeRef := max (nextStartTimeRef s1) currentTime,
                   awaits := awaits s1 @ [(DecodeAudioData msg, current_render s1)]\<rparr>,
               Some (length (awaits s1)))
         else (onmessage_interrupted msg s1, None))"

text \<open>
  \<^verbatim>\<open>onmessage\<close> from the settlement of \<^verbatim>\<open>decodeAudioData\<close> (lines 345-370). A decoder
  that throws rejects the handler, and nothing more of it runs.
\<close>

definition onmessage_resume :: "server_message \<Rightarrow> audio_buffer option \<Rightarrow> state \<Rightarrow> state" where
  "onmessage_resume msg decoded s =
     (case decoded of
        None \<Rightarrow> s
      | Some buffer \<Rightarrow>
          let source = length (started s);
              s1 = s\<lparr>started := started s @ [(nextStartTimeRef s, duration buffer)]\<rparr>;
              s2 = s1\<lparr>nextStartTimeRef := nextStartTimeRef s1 + duration buffer\<rparr>;
              s3 = s2\<lparr>sourcesRef := insert source (sourcesRef s2)\<rparr>
          in onmessage_interrupted msg s3)"

text \<open>
  One message handled from its first line to its last, the decoder having settled with
  \<open>decoded\<close> before anything else ran.
\<close>

definition onmessage ::
  "host \<Rightarrow> server_message \<Rightarrow> real \<Rightarrow> audio_buffer option \<Rightarrow> state \<Rightarrow> state" where
  "onmessage h msg currentTime decoded s =
     (case onmessage_begin h msg currentTime s of
        (s1, Some i) \<Rightarrow> onmessage_resume msg decoded (s1\<lparr>settled := insert i (settled s1)\<rparr>)
      | (s1, None) \<Rightarrow> s1)"

text \<open>\<^verbatim>\<open>source.onended\<close> (line 363).\<close>

definition onended :: "nat \<Rightarrow> state \<Rightarrow> state" where
  "onended source s = s\<lparr>sourcesRef := sourcesRef s - {source}\<rparr>"

text \<open>\<^verbatim>\<open>onclose\<close> (lines 372-376) and \<^verbatim>\<open>onerror\<close> (lines 377-381).\<close>

definition onclose :: "state \<Rightarrow> state" where
  "onclose s = cleanup (s\<lparr>isConnected := False\<rparr>)"

definition onerror :: "state \<Rightarrow> state" where
  "onerror s = cleanup (s\<lparr>error := Some (ascii ''Erro de conex'' @ [227] @ ascii ''o com Aura.'')\<rparr>)"

section \<open>Events\<close>

text \<open>
  What can happen to the mounted component: clicks on its buttons, the settlement of an
  await, the callbacks of a live session, an audio block from the script processor of a
  connection, a tick of an interval timer, the end of a buffer source or of a video track,
  an animation frame, and a change of the video element made by the browser.
\<close>

datatype event =
    MainToggleClick
  | VideoClick video_kind
  | CloseVideoClick
  | MuteClick
  | AuthorizeClick
  | CancelClick
  | Settle nat settlement
  | SessionOpen nat "nat list" "nat list"
  | SessionMessage server_message real
  | SessionClose
  | SessionError
  | AudioProcess nat jsstring
  | IntervalTick nat jsstring
  | SourceEnded nat
  | TrackEnded
  | AnimationFrame "nat list" "nat list"
  | VideoElementChanged bool bool nat nat

text \<open>The function that went to sleep at an await goes on with what the await gave.\<close>

fun resume :: "host \<Rightarrow> awaited \<Rightarrow> render \<Rightarrow> settlement \<Rightarrow> state \<Rightarrow> state" where
  "resume h GetDisplayMedia r (StreamSettled res) s = toggleVideo_stream h screen r res s"
| "resume h GetUserMediaVideo r (StreamSettled res) s = toggleVideo_stream h camera r res s"
| "resume h GetUserMediaAudio r (MicSettled res) s = connectToLive_mic h (r_isMuted r) res s"
| "resume h VideoPlay r (PlaySettled res) s = toggleVideo_played h r res s"
| "resume h (DecodeAudioData msg) r (DecodeSettled res) s = onmessage_resume msg res s"
| "resume h a r x s = s"

definition settle :: "host \<Rightarrow> nat \<Rightarrow> settlement \<Rightarrow> state \<Rightarrow> state" where
  "settle h i x s =
     (if i < length (awaits s) \<and> i \<notin> settled s
      then resume h (fst (awaits s ! i)) (snd (awaits s ! i)) x (s\<lparr>settled := insert i (settled s)\<rparr>)
      else s)"

text \<open>
  The buttons: the main button (line 512), the video buttons (lines 500 and 523), the
  close button of the video (line 468), the mute button (lines 535-536, disabled while
  not connected), and the two buttons of the authorisation dialog (lines 564 and 570,
  shown while an action is pending).
\<close>

definition step :: "host \<Rightarrow> event \<Rightarrow> state \<Rightarrow> state" where
  "step h e s =
     (case e of
        MainToggleClick \<Rightarrow> handleMainToggle h s
      | VideoClick type \<Rightarrow> toggleVideo type s
      | CloseVideoClick \<Rightarrow> stopVideoStream s
      | MuteClick \<Rightarrow> if isConnected s then s\<lparr>isMuted := \<not> isMuted s\<rparr> else s
      | AuthorizeClick \<Rightarrow>
          (case pendingAction s of
             None \<Rightarrow> s
           | Some type \<Rightarrow> (toggleVideo type s)\<lparr>pendingAction := None\<rparr>)
      | CancelClick \<Rightarrow> s\<lparr>pendingAction := None\<rparr>
      | Settle i x \<Rightarrow> settle h i x s
      | SessionOpen p inputDataArray outputDataArray \<Rightarrow>
          if p < length (connections s) then onopen p inputDataArray outputDataArray s else s
      | SessionMessage msg currentTime \<Rightarrow> fst (onmessage_begin h msg currentTime s)
      | SessionClose \<Rightarrow> onclose s
      | SessionError \<Rightarrow> onerror s
      | AudioProcess p pcmBlob \<Rightarrow>
          if p < length (connections s) \<and> processing (connections s ! p) \<and>
             conn_input (connections s ! p) \<notin> set (closedContexts s)
          then onaudioprocess (conn_isMuted (connections s ! p)) p pcmBlob s
          else s
      | IntervalTick t base64 \<Rightarrow>
          (case timers s t of None \<Rightarrow> s | Some p \<Rightarrow> frame_tick p base64 s)
      | SourceEnded source \<Rightarrow> onended source s
      | TrackEnded \<Rightarrow> stopVideoStream s
      | AnimationFrame inputDataArray outputDataArray \<Rightarrow>
          updateVolume inputDataArray outputDataArray s
      | VideoElementChanged p e w h' \<Rightarrow>
          (case videoRef s of
             None \<Rightarrow> s
           | Some v \<Rightarrow> s\<lparr>videoRef := Some (v\<lparr>paused := p, ended := e, videoWidth := w,
                                             videoHeight := h'\<rparr>)\<rparr>))"

definition run :: "host \<Rightarrow> event list \<Rightarrow> state \<Rightarrow> state" where
  "run h es s = fold (step h) es s"

section \<open>Notions used in the statements\<close>

text \<open>
  The test of line 341, made after the voice commands of the same message: the message
  carries audio, there is an output context, and the session is awake.
\<close>

definition audible :: "server_message \<Rightarrow> state \<Rightarrow> bool" where
  "audible msg s \<longleftrightarrow> truthy (audioData msg) \<and> audioContextRef s \<noteq> None \<and> \<not> isSleepModeRef s"

text \<open>A message that carries the interruption flag and nothing else.\<close>

definition interruption :: server_message where
  "interruption = \<lparr>inputTranscription = None, audioData = None, interrupted = True\<rparr>"

text \<open>
  A host with a credential, the byte frequency data of silence, and the states of a
  session that has been started from the main button, whose microphone has been granted
  (track 7) and whose transport has opened in silence;
  then with two chunks of 0.5 s and 0.3 s (at 24 kHz) received at clock time 0.
\<close>

definition silence :: "nat list" where
  "silence = replicate 128 0"

definition demo_host :: host where
  "demo_host = \<lparr>toLowerCase = toLowerCase_latin1, API_KEY = Some (ascii ''key''),
                 nullTypeError = \<lparr>name = ascii ''TypeError'', message = None\<rparr>\<rparr>"

definition demo_chunk :: server_message where
  "demo_chunk = \<lparr>inputTranscription = None, audioData = Some (ascii ''AAAA''),
                  interrupted = False\<rparr>"

definition demo_live :: state where
  "demo_live = run demo_host
     [MainToggleClick, Settle 0 (MicSettled (Inr [7])), SessionOpen 0 silence silence]
     initial_state"

definition demo_playing :: state where
  "demo_playing =
     onmessage demo_host demo_chunk 0 (Some \<lparr>frames = 7200, sampleRate = 24000\<rparr>)
       (onmessage demo_host demo_chunk 0 (Some \<lparr>frames = 12000, sampleRate = 24000\<rparr>)
          demo_live)"




text \<open>
  Two transcripts, and the state of the demo session after the second: the spoken request
  for the camera, and the sentence that sends the assistant to sleep.
\<close>

definition demo_camera_request :: server_message where
  "demo_camera_request =
     \<lparr>inputTranscription = Some (ascii ''Ligar c'' @ [226] @ ascii ''mera''),
      audioData = None, interrupted = False\<rparr>"

definition demo_sleep_request :: server_message where
  "demo_sleep_request =
     \<lparr>inputTranscription = Some (ascii ''Aura, vamos dormir''),
      audioData = None, interrupted = False\<rparr>"

definition demo_asleep :: state where
  "demo_asleep = onmessage demo_host demo_sleep_request 0 None demo_live"

text \<open>
  The invariant of the frame timer: an interval that is still installed has the handle
  that \<^verbatim>\<open>frameIntervalRef\<close> holds, and a handle that the browser has given out.
\<close>

definition tinv :: "(nat \<rightharpoonup> nat) \<Rightarrow> nat option \<Rightarrow> nat \<Rightarrow> bool" where
  "tinv tm ref cnt \<longleftrightarrow> (\<forall>t p. tm t = Some p \<longrightarrow> ref = Some t \<and> 0 < t \<and> t \<le> cnt)"

definition timers_inv :: "state \<Rightarrow> bool" where
  "timers_inv s \<longleftrightarrow> tinv (timers s) (frameIntervalRef s) (timerCount s)"

text \<open>
  The demo session after the camera button has been pressed, the camera granted (a stream
  with the one track 3) and the video element has begun to play 640 by 480 frames.
\<close>

definition demo_stream :: media_stream where
  "demo_stream = \<lparr>videoTrack = 3, otherTracks = []\<rparr>"

definition demo_video :: state where
  "demo_video = run demo_host
     [MainToggleClick, Settle 0 (MicSettled (Inr [7])), SessionOpen 0 silence silence,
      VideoClick camera, Settle 1 (StreamSettled (Inr demo_stream)), Settle 2 (PlaySettled None),
      VideoElementChanged False False 640 480] initial_state"

text \<open>
  The demo session stopped from the main button while its two chunks are scheduled, and
  started again (microphone track 8); and the demo session muted from the mute button,
  then stopped, started again while muted, and unmuted.
\<close>

definition demo_stopped :: state where
  "demo_stopped = step demo_host MainToggleClick demo_playing"

definition demo_restarted :: state where
  "demo_restarted = run demo_host
     [MainToggleClick, Settle 3 (MicSettled (Inr [8])), SessionOpen 1 silence silence]
     demo_stopped"

definition demo_muted :: state where
  "demo_muted = step demo_host MuteClick demo_live"

definition demo_unmuted :: state where
  "demo_unmuted = run demo_host
     [MainToggleClick, MainToggleClick, Settle 1 (MicSettled (Inr [8])),
      SessionOpen 1 silence silence, MuteClick] demo_muted"

text \<open>
  The invariant of the awaits: an await that has been settled is one that has begun.
\<close>

definition ainv :: "(awaited \<times> render) list \<Rightarrow> nat set \<Rightarrow> bool" where
  "ainv aw st \<longleftrightarrow> (\<forall>i \<in> st. i < length aw)"

definition awaits_inv :: "state \<Rightarrow> bool" where
  "awaits_inv s \<longleftrightarrow> ainv (awaits s) (settled s)"









section \<open>Substrings\<close>

text \<open>\<open>js_includes s p\<close> holds exactly when \<open>p\<close> is a contiguous part of \<open>s\<close>.\<close>

lemma take_is_prefix: "take (length p) s = p \<longleftrightarrow> (\<exists>v. s = p @ v)"
proof
  assume "take (length p) s = p"
  then have "s = p @ drop (length p) s" by (metis append_take_drop_id)
  then show "\<exists>v. s = p @ v" ..
next
  assume "\<exists>v. s = p @ v"
  then show "take (length p) s = p" by auto
qed

lemma js_includes_iff: "js_includes s p \<longleftrightarrow> (\<exists>u v. s = u @ p @ v)"
proof (induction s)
  case Nil
  then show ?case by simp
next
  case (Cons c cs)
  have "(\<exists>u v. c # cs = u @ p @ v) \<longleftrightarrow> (\<exists>v. c # cs = p @ v) \<or> (\<exists>u v. cs = u @ p @ v)"
  proof
    assume "\<exists>u v. c # cs = u @ p @ v"
    then obtain u v where e: "c # cs = u @ p @ v" by blast
    show "(\<exists>v. c # cs = p @ v) \<or> (\<exists>u v. cs = u @ p @ v)"
    proof (cases u)
      case Nil
      with e show ?thesis by auto
    next
      case (Cons a u')
      with e have "cs = u' @ p @ v" by simp
      then show ?thesis by blast
    qed
  next
    assume "(\<exists>v. c # cs = p @ v) \<or> (\<exists>u v. cs = u @ p @ v)"
    then show "\<exists>u v. c # cs = u @ p @ v"
    proof
      assume "\<exists>v. c # cs = p @ v"
      then obtain v where "c # cs = [] @ p @ v" by auto
      then show ?thesis by blast
    next
      assume "\<exists>u v. cs = u @ p @ v"
      then obtain u v where "c # cs = (c # u) @ p @ v" by auto
      then show ?thesis by blast
    qed
  qed
  with Cons.IH take_is_prefix [of p "c # cs"] show ?case by simp
qed

section \<open>The playback flush\<close>

lemma flush_fields:
  "sourcesRef (flush_playback s) = {}" "nextStartTimeRef (flush_playback s) = 0"
  "stopped (flush_playback s) = stopped s \<union> sourcesRef s"
  by (simp_all add: flush_playback_def)

lemma flush_twice: "flush_playback (flush_playback s) = flush_playback s"
  by (simp add: flush_playback_def)

lemma stopVideoStream_audio:
  "sourcesRef (stopVideoStream s) = sourcesRef s"
  "stopped (stopVideoStream s) = stopped s"
  "nextStartTimeRef (stopVideoStream s) = nextStartTimeRef s"
  "started (stopVideoStream s) = started s"
  by (simp_all add: stopVideoStream_def Let_def split: option.splits)

lemma setSleepState_sources:
  "sourcesRef s \<subseteq> stopped (setSleepState b s) \<union> sourcesRef (setSleepState b s)"
  by (auto simp: setSleepState_def flush_playback_def playActivationSound_def Let_def
      split: option.splits)

lemma voice_command_sources:
  "sourcesRef s \<subseteq> stopped (voice_command h msg s) \<union> sourcesRef (voice_command h msg s)"
  using setSleepState_sources [of s]
  by (simp add: voice_command_def Let_def stopVideoStream_audio)

lemma onmessage_silent:
  "\<not> audible msg (voice_command h msg s) \<Longrightarrow>
   onmessage h msg t d s = onmessage_interrupted msg (voice_command h msg s)"
  by (auto simp: onmessage_def onmessage_begin_def audible_def Let_def)

lemma onmessage_audible:
  assumes "audible msg (voice_command h msg s)"
  shows "started (onmessage h msg t (Some b) s) =
           started (voice_command h msg s) @
             [(max (nextStartTimeRef (voice_command h msg s)) t, duration b)]"
    and "sourcesRef (onmessage h msg t (Some b) s) =
           (if interrupted msg then {}
            else insert (length (started (voice_command h msg s)))
                   (sourcesRef (voice_command h msg s)))"
    and "nextStartTimeRef (onmessage h msg t (Some b) s) =
           (if interrupted msg then 0
            else max (nextStartTimeRef (voice_command h msg s)) t + duration b)"
    and "stopped (onmessage h msg t (Some b) s) =
           (if interrupted msg
            then stopped (voice_command h msg s) \<union>
                 insert (length (started (voice_command h msg s)))
                   (sourcesRef (voice_command h msg s))
            else stopped (voice_command h msg s))"
  using assms
  by (auto simp: onmessage_def onmessage_begin_def onmessage_resume_def audible_def Let_def
      onmessage_interrupted_def flush_playback_def)

lemma voice_command_silent: "inputTranscription msg = None \<Longrightarrow> voice_command h msg s = s"
  by (simp add: voice_command_def truthy_def)

lemma interruption_after_flush:
  "sourcesRef s = {} \<Longrightarrow> nextStartTimeRef s = 0 \<Longrightarrow> onmessage h interruption t d s = s"
  by (simp add: onmessage_def onmessage_begin_def onmessage_interrupted_def interruption_def
      voice_command_silent truthy_def flush_playback_def)

lemma onmessage_interrupted_fields:
  assumes "interrupted msg"
  shows "sourcesRef (onmessage h msg t (Some b) s) = {}"
    and "nextStartTimeRef (onmessage h msg t (Some b) s) = 0"
    and "sourcesRef s \<subseteq> stopped (onmessage h msg t (Some b) s)"
proof -
  let ?v = "voice_command h msg s"
  note vs = voice_command_sources [of s h msg]
  show "sourcesRef (onmessage h msg t (Some b) s) = {}"
    using assms
    by (cases "audible msg ?v")
       (simp_all add: onmessage_audible onmessage_silent onmessage_interrupted_def flush_fields)
  show "nextStartTimeRef (onmessage h msg t (Some b) s) = 0"
    using assms
    by (cases "audible msg ?v")
       (simp_all add: onmessage_audible onmessage_silent onmessage_interrupted_def flush_fields)
  show "sourcesRef s \<subseteq> stopped (onmessage h msg t (Some b) s)"
  proof (cases "audible msg ?v")
    case True
    with assms vs show ?thesis by (auto simp: onmessage_audible)
  next
    case False
    with assms vs show ?thesis
      by (auto simp: onmessage_silent onmessage_interrupted_def flush_fields)
  qed
qed

lemma setSleepState_True_fields:
  assumes "\<not> isSleepModeRef s"
  shows "isSleepModeRef (setSleepState True s)"
    and "sourcesRef (setSleepState True s) = {}"
    and "nextStartTimeRef (setSleepState True s) = 0"
    and "stopped (setSleepState True s) = stopped s \<union> sourcesRef s"
  using assms by (simp_all add: setSleepState_def flush_playback_def)

lemma setSleepState_twice: "setSleepState b (setSleepState b s) = setSleepState b s"
  by (simp add: setSleepState_def flush_playback_def playActivationSound_def Let_def
      split: option.splits)

text \<open>
  C2. A message with the interruption flag (its audio, if any, decoded) and the entry into
  sleep from the awake state both leave the set of sources in flight empty and the
  playback clock at 0, with every source that was in flight stopped, whatever the state
  before; a second entry into sleep and a following interruption change nothing.
\<close>

theorem flush_empties_and_resets:
  "(interrupted msg \<longrightarrow>
      sourcesRef (onmessage h msg t (Some b) s) = {} \<and>
      nextStartTimeRef (onmessage h msg t (Some b) s) = 0 \<and>
      sourcesRef s \<subseteq> stopped (onmessage h msg t (Some b) s) \<and>
      onmessage h interruption t' d (onmessage h msg t (Some b) s) =
        onmessage h msg t (Some b) s) \<and>
   (\<not> isSleepModeRef s \<longrightarrow>
      isSleepModeRef (setSleepState True s) \<and>
      sourcesRef (setSleepState True s) = {} \<and>
      nextStartTimeRef (setSleepState True s) = 0 \<and>
      sourcesRef s \<subseteq> stopped (setSleepState True s) \<and>
      setSleepState True (setSleepState True s) = setSleepState True s \<and>
      onmessage h interruption t' d (setSleepState True s) = setSleepState True s)"
proof (intro conjI impI)
  assume i: "interrupted msg"
  note f = onmessage_interrupted_fields [OF i, where h = h and t = t and b = b and s = s]
  from f show "sourcesRef (onmessage h msg t (Some b) s) = {}"
    and "nextStartTimeRef (onmessage h msg t (Some b) s) = 0"
    and "sourcesRef s \<subseteq> stopped (onmessage h msg t (Some b) s)"
    by blast+
  from f(1,2) show "onmessage h interruption t' d (onmessage h msg t (Some b) s) =
        onmessage h msg t (Some b) s"
    by (rule interruption_after_flush)
next
  assume a: "\<not> isSleepModeRef s"
  note f = setSleepState_True_fields [OF a]
  from f show "isSleepModeRef (setSleepState True s)"
    and "sourcesRef (setSleepState True s) = {}"
    and "nextStartTimeRef (setSleepState True s) = 0"
    by blast+
  from f(4) show "sourcesRef s \<subseteq> stopped (setSleepState True s)" by simp
  show "setSleepState True (setSleepState True s) = setSleepState True s"
    by (rule setSleepState_twice)
  from f(2,3) show "onmessage h interruption t' d (setSleepState True s) = setSleepState True s"
    by (rule interruption_after_flush)
qed

lemmas demo_defs = demo_live_def demo_host_def run_def step_def initial_state_def
  handleMainToggle_def connectToLive_def current_render_def truthy_def ascii_def settle_def
  connectToLive_mic_def onopen_def updateVolume_def silence_def

lemma demo_live_eval: "isSleepModeRef demo_live = False" "audioContextRef demo_live = Some 0"
  "sourcesRef demo_live = {}" "nextStartTimeRef demo_live = 0" "started demo_live = []"
  "stopped demo_live = {}"
  by (simp_all add: demo_defs)

lemma demo_playing_eval: "isSleepModeRef demo_playing = False"
  "sourcesRef demo_playing = {0, 1}" "nextStartTimeRef demo_playing = 4/5"
  "started demo_playing = [(0, 1/2), (1/2, 3/10)]"
  by (simp_all add: demo_playing_def demo_chunk_def onmessage_def onmessage_begin_def
      onmessage_resume_def onmessage_interrupted_def voice_command_silent demo_live_eval
      duration_def truthy_def ascii_def insert_commute)

theorem flush_empties_and_resets_witness:
  "interrupted interruption \<and> \<not> isSleepModeRef demo_playing \<and>
   sourcesRef demo_playing = {0, 1} \<and>
   sourcesRef (onmessage demo_host interruption (1/10) None demo_playing) = {} \<and>
   nextStartTimeRef (onmessage demo_host interruption (1/10) None demo_playing) = 0 \<and>
   {0, 1} \<subseteq> stopped (onmessage demo_host interruption (1/10) None demo_playing) \<and>
   sourcesRef (setSleepState True demo_playing) = {} \<and>
   nextStartTimeRef (setSleepState True demo_playing) = 0 \<and>
   {0, 1} \<subseteq> stopped (setSleepState True demo_playing)"
  using flush_empties_and_resets [of interruption demo_host "1/10" _ demo_playing]
  by (simp add: interruption_def demo_playing_eval onmessage_silent audible_def truthy_def)

section \<open>The playback schedule\<close>


lemma setSleepState_started: "started (setSleepState x s) = started s"
  by (simp add: setSleepState_def flush_playback_def playActivationSound_def Let_def
      split: option.splits)

lemma voice_command_started: "started (voice_command h msg s) = started s"
  by (simp add: voice_command_def Let_def setSleepState_started stopVideoStream_audio)

lemma setSleepState_awake_clock:
  "\<not> isSleepModeRef (setSleepState x s) \<Longrightarrow>
   nextStartTimeRef (setSleepState x s) = nextStartTimeRef s"
  by (auto simp: setSleepState_def flush_playback_def playActivationSound_def Let_def
      split: option.splits if_splits)

lemma voice_command_awake_clock:
  "\<not> isSleepModeRef (voice_command h msg s) \<Longrightarrow>
   nextStartTimeRef (voice_command h msg s) = nextStartTimeRef s"
  using setSleepState_awake_clock [of True s] setSleepState_awake_clock [of False s]
  by (simp add: voice_command_def Let_def stopVideoStream_audio split: if_splits)

lemma enqueue_chunk:
  assumes "audible msg (voice_command h msg s)"
  shows "started (onmessage h msg t (Some b) s) =
           started s @ [(max (nextStartTimeRef s) t, duration b)]"
    and "\<not> interrupted msg \<Longrightarrow>
         nextStartTimeRef (onmessage h msg t (Some b) s) = max (nextStartTimeRef s) t + duration b"
proof -
  from assms have "\<not> isSleepModeRef (voice_command h msg s)" by (simp add: audible_def)
  then have c: "nextStartTimeRef (voice_command h msg s) = nextStartTimeRef s"
    by (rule voice_command_awake_clock)
  from assms c show "started (onmessage h msg t (Some b) s) =
           started s @ [(max (nextStartTimeRef s) t, duration b)]"
    by (simp add: onmessage_audible voice_command_started)
  assume "\<not> interrupted msg"
  with assms c show "nextStartTimeRef (onmessage h msg t (Some b) s) =
      max (nextStartTimeRef s) t + duration b"
    by (simp add: onmessage_audible)
qed





section \<open>Voice commands\<close>

lemma voice_command_asleep:
  "isSleepModeRef s \<Longrightarrow> inputTranscription msg = Some t \<Longrightarrow>
   \<not> wake_phrase (toLowerCase h t) \<Longrightarrow> voice_command h msg s = s"
  by (simp add: voice_command_def)

lemma voice_command_sleep:
  "\<not> isSleepModeRef s \<Longrightarrow> inputTranscription msg = Some t \<Longrightarrow> t \<noteq> [] \<Longrightarrow>
   sleep_phrase (toLowerCase h t) \<Longrightarrow> voice_command h msg s = setSleepState True s"
  by (simp add: voice_command_def truthy_def)

lemma flush_playback_frame:
  "isSleepModeRef (flush_playback s) = isSleepModeRef s"
  "isSleepMode (flush_playback s) = isSleepMode s"
  "pendingAction (flush_playback s) = pendingAction s"
  "videoSourceRef (flush_playback s) = videoSourceRef s"
  "videoSource (flush_playback s) = videoSource s"
  "streamRef (flush_playback s) = streamRef s"
  "stoppedTracks (flush_playback s) = stoppedTracks s"
  "timers (flush_playback s) = timers s"
  "frameIntervalRef (flush_playback s) = frameIntervalRef s"
  "awaits (flush_playback s) = awaits s"
  "videoRef (flush_playback s) = videoRef s"
  "started (flush_playback s) = started s"
  "sent (flush_playback s) = sent s"
  by (simp_all add: flush_playback_def)

lemma onmessage_interrupted_frame:
  "isSleepModeRef (onmessage_interrupted msg s) = isSleepModeRef s"
  "isSleepMode (onmessage_interrupted msg s) = isSleepMode s"
  "pendingAction (onmessage_interrupted msg s) = pendingAction s"
  "videoSourceRef (onmessage_interrupted msg s) = videoSourceRef s"
  "videoSource (onmessage_interrupted msg s) = videoSource s"
  "streamRef (onmessage_interrupted msg s) = streamRef s"
  "stoppedTracks (onmessage_interrupted msg s) = stoppedTracks s"
  "timers (onmessage_interrupted msg s) = timers s"
  "frameIntervalRef (onmessage_interrupted msg s) = frameIntervalRef s"
  "awaits (onmessage_interrupted msg s) = awaits s"
  "videoRef (onmessage_interrupted msg s) = videoRef s"
  "started (onmessage_interrupted msg s) = started s"
  "sent (onmessage_interrupted msg s) = sent s"
  by (simp_all add: onmessage_interrupted_def flush_playback_frame)

lemma setSleepState_frame:
  "pendingAction (setSleepState x s) = pendingAction s"
  "videoSourceRef (setSleepState x s) = videoSourceRef s"
  "videoSource (setSleepState x s) = videoSource s"
  "streamRef (setSleepState x s) = streamRef s"
  "stoppedTracks (setSleepState x s) = stoppedTracks s"
  "timers (setSleepState x s) = timers s"
  "frameIntervalRef (setSleepState x s) = frameIntervalRef s"
  "awaits (setSleepState x s) = awaits s"
  "videoRef (setSleepState x s) = videoRef s"
  "sent (setSleepState x s) = sent s"
  "isSleepModeRef (setSleepState x s) = x"
  "isSleepMode (setSleepState x s) = (if isSleepModeRef s = x then isSleepMode s else x)"
  by (simp_all add: setSleepState_def flush_playback_def playActivationSound_def Let_def
      split: option.splits)

text \<open>
  C4. While the session is asleep, a message whose lower-cased transcript contains no wake
  phrase has no effect through its transcript: the voice-command step returns the state as
  it was, and after the whole message the session is still asleep, with the same pending
  action, the same video source and stream, no track stopped, the same timers, nothing
  awaited and no source started.
\<close>
theorem asleep_only_wake_phrases_act:
  assumes "isSleepModeRef s" and "inputTranscription msg = Some t"
    and "\<not> wake_phrase (toLowerCase h t)"
  shows "voice_command h msg s = s \<and>
         isSleepModeRef (onmessage h msg now d s) \<and>
         isSleepMode (onmessage h msg now d s) = isSleepMode s \<and>
         pendingAction (onmessage h msg now d s) = pendingAction s \<and>
         videoSourceRef (onmessage h msg now d s) = videoSourceRef s \<and>
         videoSource (onmessage h msg now d s) = videoSource s \<and>
         streamRef (onmessage h msg now d s) = streamRef s \<and>
         stoppedTracks (onmessage h msg now d s) = stoppedTracks s \<and>
         timers (onmessage h msg now d s) = timers s \<and>
         awaits (onmessage h msg now d s) = awaits s \<and>
         started (onmessage h msg now d s) = started s"
proof -
  have v: "voice_command h msg s = s" using assms by (rule voice_command_asleep)
  with assms(1) have "\<not> audible msg (voice_command h msg s)" by (simp add: audible_def)
  then have "onmessage h msg now d s = onmessage_interrupted msg s"
    by (simp add: onmessage_silent v)
  with v assms(1) show ?thesis by (simp add: onmessage_interrupted_frame)
qed

text \<open>
  C5. While the session is awake, a message whose non-empty transcript, lower-cased,
  contains a sleep phrase puts the session to sleep, whatever else the transcript
  contains: no pending action is set, and the video source, its stream, its tracks and the
  timers are as before.
\<close>
theorem awake_sleep_phrase_wins:
  assumes "\<not> isSleepModeRef s" and "inputTranscription msg = Some t" and "t \<noteq> []"
    and "sleep_phrase (toLowerCase h t)"
  shows "isSleepModeRef (onmessage h msg now d s) \<and>
         isSleepMode (onmessage h msg now d s) \<and>
         pendingAction (onmessage h msg now d s) = pendingAction s \<and>
         videoSourceRef (onmessage h msg now d s) = videoSourceRef s \<and>
         videoSource (onmessage h msg now d s) = videoSource s \<and>
         streamRef (onmessage h msg now d s) = streamRef s \<and>
         stoppedTracks (onmessage h msg now d s) = stoppedTracks s \<and>
         timers (onmessage h msg now d s) = timers s \<and>
         awaits (onmessage h msg now d s) = awaits s"
proof -
  have v: "voice_command h msg s = setSleepState True s"
    using assms by (rule voice_command_sleep)
  then have "\<not> audible msg (voice_command h msg s)"
    by (simp add: audible_def setSleepState_frame)
  then have "onmessage h msg now d s = onmessage_interrupted msg (setSleepState True s)"
    by (simp add: onmessage_silent v)
  with assms(1) show ?thesis by (simp add: onmessage_interrupted_frame setSleepState_frame)
qed

lemma demo_sleep_phrase:
  "sleep_phrase (toLowerCase demo_host (ascii ''Aura, vamos dormir''))"
  by (simp add: sleep_phrase_def demo_host_def toLowerCase_latin1_def ascii_def)

lemma demo_camera_phrase:
  "\<not> wake_phrase (toLowerCase demo_host (ascii ''Ligar c'' @ [226] @ ascii ''mera''))"
  "camera_phrase (toLowerCase demo_host (ascii ''Ligar c'' @ [226] @ ascii ''mera''))"
  by (simp_all add: wake_phrase_def camera_phrase_def demo_host_def toLowerCase_latin1_def ascii_def)

lemma demo_asleep_eval: "isSleepModeRef demo_asleep" "pendingAction demo_asleep = None"
  "streamRef demo_asleep = None"
proof -
  have v: "voice_command demo_host demo_sleep_request demo_live = setSleepState True demo_live"
    by (rule voice_command_sleep [OF _ _ _ demo_sleep_phrase])
       (simp_all add: demo_live_eval demo_sleep_request_def ascii_def)
  then have "\<not> audible demo_sleep_request (voice_command demo_host demo_sleep_request demo_live)"
    by (simp add: audible_def setSleepState_frame)
  then have e: "demo_asleep = onmessage_interrupted demo_sleep_request (setSleepState True demo_live)"
    by (simp add: demo_asleep_def onmessage_silent v)
  have p: "pendingAction demo_live = None" "streamRef demo_live = None"
    by (simp_all add: demo_defs)
  show "isSleepModeRef demo_asleep" "pendingAction demo_asleep = None"
    "streamRef demo_asleep = None"
    by (simp_all add: e onmessage_interrupted_frame setSleepState_frame p)
qed

theorem awake_sleep_phrase_wins_witness:
  "\<not> isSleepModeRef demo_live \<and>
   inputTranscription demo_sleep_request = Some (ascii ''Aura, vamos dormir'') \<and>
   ascii ''Aura, vamos dormir'' \<noteq> [] \<and>
   sleep_phrase (toLowerCase demo_host (ascii ''Aura, vamos dormir'')) \<and>
   isSleepModeRef demo_asleep \<and> pendingAction demo_asleep = None \<and>
   streamRef demo_asleep = None"
proof -
  have a: "\<not> isSleepModeRef demo_live" by (simp add: demo_live_eval)
  have b: "inputTranscription demo_sleep_request = Some (ascii ''Aura, vamos dormir'')"
    by (simp add: demo_sleep_request_def)
  have c: "ascii ''Aura, vamos dormir'' \<noteq> []" by (simp add: ascii_def)
  from awake_sleep_phrase_wins [OF a b c demo_sleep_phrase, of 0 None]
  have "isSleepModeRef demo_asleep" by (simp add: demo_asleep_def)
  with a b c demo_sleep_phrase demo_asleep_eval(2,3) show ?thesis by blast
qed

theorem asleep_only_wake_phrases_act_witness:
  "isSleepModeRef demo_asleep \<and>
   inputTranscription demo_camera_request = Some (ascii ''Ligar c'' @ [226] @ ascii ''mera'') \<and>
   \<not> wake_phrase (toLowerCase demo_host (ascii ''Ligar c'' @ [226] @ ascii ''mera'')) \<and>
   camera_phrase (toLowerCase demo_host (ascii ''Ligar c'' @ [226] @ ascii ''mera'')) \<and>
   isSleepModeRef (onmessage demo_host demo_camera_request 1 None demo_asleep) \<and>
   pendingAction (onmessage demo_host demo_camera_request 1 None demo_asleep) = None"
proof -
  have b: "inputTranscription demo_camera_request =
      Some (ascii ''Ligar c'' @ [226] @ ascii ''mera'')"
    by (simp add: demo_camera_request_def)
  from asleep_only_wake_phrases_act [OF demo_asleep_eval(1) b demo_camera_phrase(1), of 1 None]
    demo_asleep_eval(2)
  have "isSleepModeRef (onmessage demo_host demo_camera_request 1 None demo_asleep) \<and>
     pendingAction (onmessage demo_host demo_camera_request 1 None demo_asleep) = None"
    by simp
  with demo_asleep_eval(1) b demo_camera_phrase show ?thesis by blast
qed

section \<open>The frame timer\<close>

lemma timers_inv_cong:
  "timers s' = timers s \<Longrightarrow> frameIntervalRef s' = frameIntervalRef s \<Longrightarrow>
   timerCount s' = timerCount s \<Longrightarrow> timers_inv s' = timers_inv s"
  by (simp add: timers_inv_def)

lemma timers_inv_initial: "timers_inv initial_state"
  by (simp add: timers_inv_def tinv_def initial_state_def)

lemma stopVideoStream_fields:
  "streamRef (stopVideoStream s) = None"
  "videoSource (stopVideoStream s) = None"
  "videoSourceRef (stopVideoStream s) = None"
  "timerCount (stopVideoStream s) = timerCount s"
  "awaits (stopVideoStream s) = awaits s"
  "pendingAction (stopVideoStream s) = pendingAction s"
  "isSleepModeRef (stopVideoStream s) = isSleepModeRef s"
  "isSleepMode (stopVideoStream s) = isSleepMode s"
  "audioContextRef (stopVideoStream s) = audioContextRef s"
  "inputContextRef (stopVideoStream s) = inputContextRef s"
  "sessionRef (stopVideoStream s) = sessionRef s"
  "connections (stopVideoStream s) = connections s"
  "contextCount (stopVideoStream s) = contextCount s"
  "closedContexts (stopVideoStream s) = closedContexts s"
  "micTracks (stopVideoStream s) = micTracks s"
  "error (stopVideoStream s) = error s"
  "sent (stopVideoStream s) = sent s"
  "isConnected (stopVideoStream s) = isConnected s"
  "isMuted (stopVideoStream s) = isMuted s"
  "stoppedTracks (stopVideoStream s) =
     stoppedTracks s \<union> (case streamRef s of None \<Rightarrow> {} | Some st \<Rightarrow> set (getTracks st))"
  by (simp_all add: stopVideoStream_def Let_def split: option.splits)

lemma stopVideoStream_timers:
  "timers (stopVideoStream s) =
     (case frameIntervalRef s of
        None \<Rightarrow> timers s
      | Some t \<Rightarrow> if t \<noteq> 0 then (timers s)(t := None) else timers s)"
  "frameIntervalRef (stopVideoStream s) =
     (case frameIntervalRef s of
        None \<Rightarrow> None
      | Some t \<Rightarrow> if t \<noteq> 0 then None else Some t)"
  by (simp_all add: stopVideoStream_def Let_def split: option.splits)

lemma stopVideoStream_clears:
  assumes "timers_inv s"
  shows "timers (stopVideoStream s) = Map.empty"
proof (rule ext)
  fix t
  show "timers (stopVideoStream s) t = None"
  proof (cases "timers (stopVideoStream s) t")
    case None
    then show ?thesis .
  next
    case (Some p)
    then have "timers s t = Some p"
      by (auto simp: stopVideoStream_timers split: option.splits if_splits)
    with assms have "frameIntervalRef s = Some t" "0 < t"
      by (auto simp: timers_inv_def tinv_def)
    with Some show ?thesis by (simp add: stopVideoStream_timers)
  qed
qed

lemma stopVideoStream_inv: "timers_inv s \<Longrightarrow> timers_inv (stopVideoStream s)"
  using stopVideoStream_clears [of s]
  by (simp add: timers_inv_def tinv_def stopVideoStream_fields)

lemma startFrameTransmission_fields:
  "timers (startFrameTransmission c s) t = Some p \<Longrightarrow>
     (t = Suc (timerCount s) \<and> frameIntervalRef (startFrameTransmission c s) = Some t \<and>
      timerCount (startFrameTransmission c s) = t) \<or>
     (timers s t = Some p \<and> (frameIntervalRef s \<noteq> Some t \<or> t = 0))"
  by (auto simp: startFrameTransmission_def Let_def split: option.splits if_splits)

lemma startFrameTransmission_timers:
  assumes "timers_inv s"
  shows "dom (timers (startFrameTransmission c s)) \<subseteq> {Suc (timerCount s)}"
    and "t \<in> dom (timers s) \<Longrightarrow> timers (startFrameTransmission c s) t = None"
proof -
  have *: "t' = Suc (timerCount s)" if "timers (startFrameTransmission c s) t' = Some p" for t' p
    using startFrameTransmission_fields [OF that] assms
    by (auto simp: timers_inv_def tinv_def)
  then show "dom (timers (startFrameTransmission c s)) \<subseteq> {Suc (timerCount s)}" by auto
  assume "t \<in> dom (timers s)"
  with assms have "t \<le> timerCount s" by (auto simp: timers_inv_def tinv_def)
  with * [of t] show "timers (startFrameTransmission c s) t = None"
    by (cases "timers (startFrameTransmission c s) t") auto
qed

lemma startFrameTransmission_inv:
  assumes "timers_inv s"
  shows "timers_inv (startFrameTransmission c s)"
  unfolding timers_inv_def tinv_def
proof (intro allI impI)
  fix t p assume "timers (startFrameTransmission c s) t = Some p"
  from startFrameTransmission_fields [OF this] assms
  show "frameIntervalRef (startFrameTransmission c s) = Some t \<and> 0 < t \<and>
        t \<le> timerCount (startFrameTransmission c s)"
    by (auto simp: timers_inv_def tinv_def)
qed

lemma timers_inv_update:
  "timers_inv (s\<lparr>isConnected := x0\<rparr>) = timers_inv s"
  "timers_inv (s\<lparr>isMuted := x1\<rparr>) = timers_inv s"
  "timers_inv (s\<lparr>volumeLevel := x2\<rparr>) = timers_inv s"
  "timers_inv (s\<lparr>outputVolume := x3\<rparr>) = timers_inv s"
  "timers_inv (s\<lparr>videoSource := x4\<rparr>) = timers_inv s"
  "timers_inv (s\<lparr>error := x5\<rparr>) = timers_inv s"
  "timers_inv (s\<lparr>isSleepMode := x6\<rparr>) = timers_inv s"
  "timers_inv (s\<lparr>pendingAction := x7\<rparr>) = timers_inv s"
  "timers_inv (s\<lparr>isAiSpeaking := x8\<rparr>) = timers_inv s"
  "timers_inv (s\<lparr>audioContextRef := x9\<rparr>) = timers_inv s"
  "timers_inv (s\<lparr>inputContextRef := x10\<rparr>) = timers_inv s"
  "timers_inv (s\<lparr>nextStartTimeRef := x11\<rparr>) = timers_inv s"
  "timers_inv (s\<lparr>sourcesRef := x12\<rparr>) = timers_inv s"
  "timers_inv (s\<lparr>sessionRef := x13\<rparr>) = timers_inv s"
  "timers_inv (s\<lparr>outputAnalyserRef := x14\<rparr>) = timers_inv s"
  "timers_inv (s\<lparr>isSleepModeRef := x15\<rparr>) = timers_inv s"
  "timers_inv (s\<lparr>videoSourceRef := x16\<rparr>) = timers_inv s"
  "timers_inv (s\<lparr>videoRef := x17\<rparr>) = timers_inv s"
  "timers_inv (s\<lparr>canvasRef := x18\<rparr>) = timers_inv s"
  "timers_inv (s\<lparr>canvasSize := x19\<rparr>) = timers_inv s"
  "timers_inv (s\<lparr>streamRef := x20\<rparr>) = timers_inv s"
  "timers_inv (s\<lparr>contextCount := x21\<rparr>) = timers_inv s"
  "timers_inv (s\<lparr>closedContexts := x22\<rparr>) = timers_inv s"
  "timers_inv (s\<lparr>activationSounds := x23\<rparr>) = timers_inv s"
  "timers_inv (s\<lparr>started := x24\<rparr>) = timers_inv s"
  "timers_inv (s\<lparr>stopped := x25\<rparr>) = timers_inv s"
  "timers_inv (s\<lparr>stoppedTracks := x26\<rparr>) = timers_inv s"
  "timers_inv (s\<lparr>micTracks := x27\<rparr>) = timers_inv s"
  "timers_inv (s\<lparr>awaits := x28\<rparr>) = timers_inv s"
  "timers_inv (s\<lparr>settled := x29\<rparr>) = timers_inv s"
  "timers_inv (s\<lparr>connections := x30\<rparr>) = timers_inv s"
  "timers_inv (s\<lparr>sent := x31\<rparr>) = timers_inv s"
  by (simp_all add: timers_inv_def)

lemma setSleepState_inv: "timers_inv (setSleepState x s) = timers_inv s"
  by (simp add: setSleepState_def flush_playback_def playActivationSound_def Let_def
      timers_inv_update split: option.splits)

lemma cleanup_inv: "timers_inv s \<Longrightarrow> timers_inv (cleanup s)"
  by (simp add: cleanup_def Let_def timers_inv_update setSleepState_inv stopVideoStream_inv
      split: option.splits)

lemma connectToLive_catch_inv: "timers_inv s \<Longrightarrow> timers_inv (connectToLive_catch e s)"
  by (simp add: connectToLive_catch_def cleanup_inv timers_inv_update)

lemma connectToLive_inv: "timers_inv s \<Longrightarrow> timers_inv (connectToLive h r s)"
  by (simp add: connectToLive_def Let_def connectToLive_catch_inv timers_inv_update)

lemma connectToLive_mic_inv: "timers_inv s \<Longrightarrow> timers_inv (connectToLive_mic h m res s)"
  by (simp add: connectToLive_mic_def Let_def connectToLive_catch_inv timers_inv_update
      split: sum.splits option.splits)

lemma handleMainToggle_inv: "timers_inv s \<Longrightarrow> timers_inv (handleMainToggle h s)"
  by (simp add: handleMainToggle_def cleanup_inv connectToLive_inv)

lemma toggleVideo_catch_inv: "timers_inv s \<Longrightarrow> timers_inv (toggleVideo_catch e s)"
  by (simp add: toggleVideo_catch_def stopVideoStream_inv timers_inv_update)

lemma toggleVideo_inv: "timers_inv s \<Longrightarrow> timers_inv (toggleVideo k s)"
  by (simp add: toggleVideo_def stopVideoStream_inv timers_inv_update)

lemma toggleVideo_transmit_inv: "timers_inv s \<Longrightarrow> timers_inv (toggleVideo_transmit h r s)"
  by (simp add: toggleVideo_transmit_def connectToLive_inv startFrameTransmission_inv)

lemma toggleVideo_stream_inv: "timers_inv s \<Longrightarrow> timers_inv (toggleVideo_stream h k r res s)"
  by (simp add: toggleVideo_stream_def Let_def toggleVideo_catch_inv toggleVideo_transmit_inv
      timers_inv_update split: sum.splits option.splits)

lemma toggleVideo_played_inv: "timers_inv s \<Longrightarrow> timers_inv (toggleVideo_played h r res s)"
  by (simp add: toggleVideo_played_def toggleVideo_catch_inv toggleVideo_transmit_inv
      split: option.splits)

lemma updateVolume_inv: "timers_inv (updateVolume a b s) = timers_inv s"
  by (simp add: updateVolume_def Let_def timers_inv_update split: option.splits)

lemma onopen_inv: "timers_inv s \<Longrightarrow> timers_inv (onopen p a b s)"
  by (simp add: onopen_def Let_def startFrameTransmission_inv timers_inv_update
      updateVolume_inv split: option.splits)

lemma voice_command_inv: "timers_inv s \<Longrightarrow> timers_inv (voice_command h msg s)"
  by (simp add: voice_command_def Let_def setSleepState_inv stopVideoStream_inv
      timers_inv_update)

lemma onmessage_interrupted_inv: "timers_inv (onmessage_interrupted msg s) = timers_inv s"
  by (simp add: onmessage_interrupted_def flush_playback_def timers_inv_update)

lemma onmessage_begin_inv: "timers_inv s \<Longrightarrow> timers_inv (fst (onmessage_begin h msg t s))"
  by (simp add: onmessage_begin_def Let_def voice_command_inv onmessage_interrupted_inv
      timers_inv_update)

lemma onmessage_resume_inv: "timers_inv (onmessage_resume msg d s) = timers_inv s"
  by (simp add: onmessage_resume_def Let_def onmessage_interrupted_inv timers_inv_update
      split: option.splits)

lemma onclose_inv: "timers_inv s \<Longrightarrow> timers_inv (onclose s)"
  by (simp add: onclose_def cleanup_inv timers_inv_update)

lemma onerror_inv: "timers_inv s \<Longrightarrow> timers_inv (onerror s)"
  by (simp add: onerror_def cleanup_inv timers_inv_update)

lemma frame_tick_inv: "timers_inv (frame_tick p b s) = timers_inv s"
  by (simp add: frame_tick_def timers_inv_update split: option.splits)

lemma resume_inv: "timers_inv s \<Longrightarrow> timers_inv (resume h a r x s)"
  by (cases "(h, a, r, x, s)" rule: resume.cases)
     (simp_all add: toggleVideo_stream_inv connectToLive_mic_inv toggleVideo_played_inv
        onmessage_resume_inv)

lemma settle_inv: "timers_inv s \<Longrightarrow> timers_inv (settle h i x s)"
  by (simp add: settle_def resume_inv timers_inv_update)

lemma step_inv: "timers_inv s \<Longrightarrow> timers_inv (step h e s)"
  by (cases e)
     (simp_all add: step_def handleMainToggle_inv toggleVideo_inv stopVideoStream_inv
        timers_inv_update settle_inv onopen_inv onmessage_begin_inv onclose_inv onerror_inv
        onaudioprocess_def frame_tick_inv onended_def updateVolume_inv Let_def
        split: option.splits)

lemma run_inv: "timers_inv s \<Longrightarrow> timers_inv (run h es s)"
  unfolding run_def by (induction es arbitrary: s) (simp_all add: step_inv)

lemmas demo_video_defs = demo_video_def demo_stream_def demo_host_def run_def step_def
  initial_state_def handleMainToggle_def connectToLive_def current_render_def truthy_def
  ascii_def settle_def connectToLive_mic_def onopen_def updateVolume_def silence_def toggleVideo_def toggleVideo_stream_def
  toggleVideo_played_def toggleVideo_transmit_def startFrameTransmission_def

lemma demo_video_eval:
  "timers demo_video 1 = Some 0" "frameIntervalRef demo_video = Some 1"
  "streamRef demo_video = Some demo_stream" "videoSourceRef demo_video = Some camera"
  "videoRef demo_video = Some \<lparr>srcObject = Some demo_stream, paused = False, ended = False,
     videoWidth = 640, videoHeight = 480\<rparr>"
  "sent demo_video = []" "isSleepModeRef demo_video = False" "stoppedTracks demo_video = {}"
  "awaits demo_video = [(GetUserMediaAudio, \<lparr>r_isConnected = False, r_isMuted = False\<rparr>),
     (GetUserMediaVideo, \<lparr>r_isConnected = True, r_isMuted = False\<rparr>),
     (VideoPlay, \<lparr>r_isConnected = True, r_isMuted = False\<rparr>)]"
  by (simp_all add: demo_video_defs)

lemma tick_after_stop:
  "timers_inv s \<Longrightarrow> step h (IntervalTick t b) (stopVideoStream s) = stopVideoStream s"
  by (simp add: step_def stopVideoStream_clears)

text \<open>
  C10. In every state that a sequence of events reaches from the freshly mounted
  component, at most one interval timer is installed, and it is the one whose handle
  \<^verbatim>\<open>frameIntervalRef\<close> holds. \<^verbatim>\<open>startFrameTransmission\<close> leaves none of the timers
  that were installed before it, and at most the new one; \<^verbatim>\<open>stopVideoStream\<close> leaves
  no timer at all, stops every track of the stream and drops the stream, so that no tick
  does anything after it.
\<close>
theorem one_frame_timer:
  assumes "s = run h es initial_state"
  shows "(\<forall>t t' p p'. timers s t = Some p \<and> timers s t' = Some p' \<longrightarrow> t = t') \<and>
         (\<forall>t p. timers s t = Some p \<longrightarrow> frameIntervalRef s = Some t) \<and>
         (\<forall>c t. t \<in> dom (timers s) \<longrightarrow> timers (startFrameTransmission c s) t = None) \<and>
         (\<forall>c. dom (timers (startFrameTransmission c s)) \<subseteq> {Suc (timerCount s)}) \<and>
         timers (stopVideoStream s) = Map.empty \<and>
         streamRef (stopVideoStream s) = None \<and>
         (\<forall>st. streamRef s = Some st \<longrightarrow>
            set (getTracks st) \<subseteq> stoppedTracks (stopVideoStream s)) \<and>
         (\<forall>t b. step h (IntervalTick t b) (stopVideoStream s) = stopVideoStream s)"
proof -
  have inv: "timers_inv s"
    unfolding assms by (rule run_inv [OF timers_inv_initial])
  then have r: "frameIntervalRef s = Some t" if "timers s t = Some p" for t p
    using that by (simp add: timers_inv_def tinv_def)
  have u: "t = t'" if "timers s t = Some p" "timers s t' = Some p'" for t t' p p'
    using r [OF that(1)] r [OF that(2)] by simp
  have k: "set (getTracks st) \<subseteq> stoppedTracks (stopVideoStream s)"
    if "streamRef s = Some st" for st
    using that by (simp add: stopVideoStream_fields)
  show ?thesis
  proof (intro conjI allI impI)
    fix t t' p p' assume "timers s t = Some p \<and> timers s t' = Some p'"
    then show "t = t'" using u by blast
  next
    fix t p assume "timers s t = Some p"
    then show "frameIntervalRef s = Some t" by (rule r)
  next
    fix c t assume "t \<in> dom (timers s)"
    then show "timers (startFrameTransmission c s) t = None"
      by (rule startFrameTransmission_timers(2) [OF inv])
  next
    fix c show "dom (timers (startFrameTransmission c s)) \<subseteq> {Suc (timerCount s)}"
      by (rule startFrameTransmission_timers(1) [OF inv])
  next
    show "timers (stopVideoStream s) = Map.empty" by (rule stopVideoStream_clears [OF inv])
  next
    show "streamRef (stopVideoStream s) = None" by (simp add: stopVideoStream_fields)
  next
    fix st assume "streamRef s = Some st"
    then show "set (getTracks st) \<subseteq> stoppedTracks (stopVideoStream s)" by (rule k)
  next
    fix t b show "step h (IntervalTick t b) (stopVideoStream s) = stopVideoStream s"
      by (rule tick_after_stop [OF inv])
  qed
qed

theorem one_frame_timer_witness:
  "demo_video = run demo_host
     [MainToggleClick, Settle 0 (MicSettled (Inr [7])), SessionOpen 0 silence silence,
      VideoClick camera, Settle 1 (StreamSettled (Inr demo_stream)), Settle 2 (PlaySettled None),
      VideoElementChanged False False 640 480] initial_state \<and>
   timers demo_video 1 = Some 0 \<and> 1 \<in> dom (timers demo_video) \<and>
   streamRef demo_video = Some demo_stream \<and>
   frameIntervalRef demo_video = Some 1 \<and>
   timers (startFrameTransmission None demo_video) 1 = None \<and>
   timers (stopVideoStream demo_video) = Map.empty \<and>
   3 \<in> stoppedTracks (stopVideoStream demo_video)"
proof -
  have t: "timers demo_video 1 = Some 0" by (rule demo_video_eval)
  then have d: "1 \<in> dom (timers demo_video)" by blast
  note st = demo_video_eval(3)
  from one_frame_timer [OF demo_video_def] t
  have 1: "frameIntervalRef demo_video = Some 1" by blast
  from one_frame_timer [OF demo_video_def] d
  have 2: "timers (startFrameTransmission None demo_video) 1 = None" by blast
  from one_frame_timer [OF demo_video_def]
  have 3: "timers (stopVideoStream demo_video) = Map.empty" by blast
  from one_frame_timer [OF demo_video_def] st
  have "set (getTracks demo_stream) \<subseteq> stoppedTracks (stopVideoStream demo_video)" by blast
  then have 4: "3 \<in> stoppedTracks (stopVideoStream demo_video)"
    by (simp add: getTracks_def demo_stream_def)
  from demo_video_def t d st 1 2 3 4 show ?thesis by blast
qed

section \<open>Asking for the active video source\<close>

lemma voice_command_pendingAction:
  assumes "videoSourceRef s = Some k"
    and "pendingAction (voice_command h msg s) = Some k"
  shows "pendingAction s = Some k"
  using assms
  by (cases k)
     (auto simp: voice_command_def Let_def setSleepState_frame stopVideoStream_fields
        split: if_splits)

lemma onmessage_pendingAction:
  "pendingAction (onmessage h msg t d s) = pendingAction (voice_command h msg s)"
  by (auto simp: onmessage_def onmessage_begin_def onmessage_resume_def Let_def
      onmessage_interrupted_frame split: option.splits)

text \<open>
  C7. When \<open>k\<close> is the active video source, \<^verbatim>\<open>toggleVideo k\<close> is
  \<^verbatim>\<open>stopVideoStream\<close>: no device is requested, the source and the stream are dropped,
  every track of the stream is stopped and the timer of \<^verbatim>\<open>frameIntervalRef\<close> is
  cleared; the same holds when the request comes from the authorisation dialog. On the
  spoken path, no message sets the pending action to \<open>k\<close> unless it was \<open>k\<close> already.
\<close>
theorem active_source_request_turns_video_off:
  assumes "videoSourceRef s = Some k"
  shows "toggleVideo k s = stopVideoStream s \<and>
         awaits (toggleVideo k s) = awaits s \<and>
         videoSourceRef (toggleVideo k s) = None \<and>
         videoSource (toggleVideo k s) = None \<and>
         streamRef (toggleVideo k s) = None \<and>
         (\<forall>st. streamRef s = Some st \<longrightarrow>
            set (getTracks st) \<subseteq> stoppedTracks (toggleVideo k s)) \<and>
         (\<forall>t. frameIntervalRef s = Some t \<and> t \<noteq> 0 \<longrightarrow>
            timers (toggleVideo k s) t = None \<and> frameIntervalRef (toggleVideo k s) = None) \<and>
         (pendingAction s = Some k \<longrightarrow>
            awaits (step h AuthorizeClick s) = awaits s \<and>
            streamRef (step h AuthorizeClick s) = None \<and>
            videoSourceRef (step h AuthorizeClick s) = None) \<and>
         (pendingAction (onmessage h msg now d s) = Some k \<longrightarrow> pendingAction s = Some k)"
proof -
  have e: "toggleVideo k s = stopVideoStream s" using assms by (simp add: toggleVideo_def)
  have p: "pendingAction s = Some k"
    if "pendingAction (onmessage h msg now d s) = Some k"
    using that voice_command_pendingAction [OF assms] by (simp add: onmessage_pendingAction)
  show ?thesis
    using p by (simp add: e step_def stopVideoStream_fields stopVideoStream_timers)
qed

theorem active_source_request_turns_video_off_witness:
  "videoSourceRef demo_video = Some camera \<and>
   streamRef demo_video = Some demo_stream \<and>
   frameIntervalRef demo_video = Some 1 \<and> (1::nat) \<noteq> 0 \<and>
   timers demo_video 1 = Some 0 \<and>
   toggleVideo camera demo_video = stopVideoStream demo_video \<and>
   awaits (toggleVideo camera demo_video) = awaits demo_video \<and>
   streamRef (toggleVideo camera demo_video) = None \<and>
   3 \<in> stoppedTracks (toggleVideo camera demo_video) \<and>
   timers (toggleVideo camera demo_video) 1 = None \<and>
   pendingAction (onmessage demo_host demo_camera_request 2 None demo_video) = None"
proof -
  note h = active_source_request_turns_video_off [OF demo_video_eval(4),
      of demo_host demo_camera_request 2 None]
  from h demo_video_eval(3)
  have "set (getTracks demo_stream) \<subseteq> stoppedTracks (toggleVideo camera demo_video)" by blast
  then have 1: "3 \<in> stoppedTracks (toggleVideo camera demo_video)"
    by (simp add: getTracks_def demo_stream_def)
  have nz: "(1::nat) \<noteq> 0" by simp
  from h demo_video_eval(2) nz
  have 2: "timers (toggleVideo camera demo_video) 1 = None" by blast
  have "pendingAction demo_video = None" by (simp add: demo_video_defs)
  with h have "pendingAction (onmessage demo_host demo_camera_request 2 None demo_video) \<noteq> Some camera"
    by auto
  moreover have "pendingAction (onmessage demo_host demo_camera_request 2 None demo_video) \<noteq> Some screen"
    using demo_camera_phrase
    by (simp add: onmessage_pendingAction voice_command_def demo_camera_request_def truthy_def
        Let_def demo_video_eval ascii_def sleep_phrase_def demo_host_def toLowerCase_latin1_def
        \<open>pendingAction demo_video = None\<close>)
  ultimately have 3: "pendingAction (onmessage demo_host demo_camera_request 2 None demo_video) = None"
    by (cases "pendingAction (onmessage demo_host demo_camera_request 2 None demo_video)")
       (auto intro: video_kind.exhaust)
  from h demo_video_eval(1-4) nz 1 2 3 show ?thesis by blast
qed

section \<open>Teardown and the missing credential\<close>

lemma setSleepState_session:
  "isConnected (setSleepState x s) = isConnected s"
  "sessionRef (setSleepState x s) = sessionRef s"
  "audioContextRef (setSleepState x s) = audioContextRef s"
  "inputContextRef (setSleepState x s) = inputContextRef s"
  "error (setSleepState x s) = error s"
  "connections (setSleepState x s) = connections s"
  "contextCount (setSleepState x s) = contextCount s"
  "closedContexts (setSleepState x s) = closedContexts s"
  "micTracks (setSleepState x s) = micTracks s"
  "volumeLevel (setSleepState x s) = volumeLevel s"
  "outputVolume (setSleepState x s) = outputVolume s"
  "isMuted (setSleepState x s) = isMuted s"
  "sourcesRef (setSleepState False s) = sourcesRef s"
  "nextStartTimeRef (setSleepState False s) = nextStartTimeRef s"
  "stopped (setSleepState False s) = stopped s"
  by (simp_all add: setSleepState_def flush_playback_def playActivationSound_def Let_def
      split: option.splits)

lemma cleanup_fields:
  "isConnected (cleanup s) = False"
  "sessionRef (cleanup s) = None"
  "audioContextRef (cleanup s) = None"
  "inputContextRef (cleanup s) = None"
  "streamRef (cleanup s) = None"
  "videoSource (cleanup s) = None"
  "videoSourceRef (cleanup s) = None"
  "sourcesRef (cleanup s) = {}"
  "isSleepModeRef (cleanup s) = False"
  "pendingAction (cleanup s) = None"
  "isAiSpeaking (cleanup s) = False"
  "volumeLevel (cleanup s) = 0"
  "outputVolume (cleanup s) = 0"
  "error (cleanup s) = error s"
  "connections (cleanup s) = connections s"
  "awaits (cleanup s) = awaits s"
  "contextCount (cleanup s) = contextCount s"
  "micTracks (cleanup s) = micTracks s"
  "isMuted (cleanup s) = isMuted s"
  "nextStartTimeRef (cleanup s) = nextStartTimeRef s"
  "timers (cleanup s) = timers (stopVideoStream s)"
  "stoppedTracks (cleanup s) = stoppedTracks (stopVideoStream s)"
  by (simp_all add: cleanup_def Let_def setSleepState_frame setSleepState_session
      stopVideoStream_fields stopVideoStream_audio split: option.splits)

text \<open>
  C8. Without a credential, \<^verbatim>\<open>connectToLive\<close> sets the error message
  \<^verbatim>\<open>API Key faltante.\<close>, opens no connection, awaits no device, creates no audio
  context, and leaves the component not connected, with no session, no audio context, no
  stream, no video source, no source in flight, awake and with no pending action (and, in
  a state that satisfies the timer invariant, with no timer); from the freshly mounted
  component the main button changes nothing but the error message.
\<close>
theorem missing_credential_fails_clean:
  assumes "\<not> truthy (API_KEY h)"
  shows "error (connectToLive h r s) = Some (ascii ''API Key faltante.'') \<and>
         connections (connectToLive h r s) = connections s \<and>
         awaits (connectToLive h r s) = awaits s \<and>
         contextCount (connectToLive h r s) = contextCount s \<and>
         micTracks (connectToLive h r s) = micTracks s \<and>
         \<not> isConnected (connectToLive h r s) \<and>
         sessionRef (connectToLive h r s) = None \<and>
         audioContextRef (connectToLive h r s) = None \<and>
         inputContextRef (connectToLive h r s) = None \<and>
         streamRef (connectToLive h r s) = None \<and>
         videoSourceRef (connectToLive h r s) = None \<and>
         sourcesRef (connectToLive h r s) = {} \<and>
         \<not> isSleepModeRef (connectToLive h r s) \<and>
         pendingAction (connectToLive h r s) = None \<and>
         (timers_inv s \<longrightarrow> timers (connectToLive h r s) = Map.empty) \<and>
         handleMainToggle h initial_state =
           initial_state\<lparr>error := Some (ascii ''API Key faltante.'')\<rparr>"
proof -
  have e: "connectToLive h r s = cleanup (s\<lparr>error := Some (ascii ''API Key faltante.'')\<rparr>)"
    using assms by (simp add: connectToLive_def connectToLive_catch_def truthy_def ascii_def)
  have t: "timers (connectToLive h r s) = Map.empty" if "timers_inv s"
  proof -
    from that have "timers_inv (s\<lparr>error := Some (ascii ''API Key faltante.'')\<rparr>)"
      by (simp add: timers_inv_update)
    from stopVideoStream_clears [OF this] show ?thesis by (simp add: e cleanup_fields)
  qed
  have i: "handleMainToggle h initial_state =
           initial_state\<lparr>error := Some (ascii ''API Key faltante.'')\<rparr>"
    using assms
    by (simp add: handleMainToggle_def connectToLive_def connectToLive_catch_def truthy_def
        ascii_def initial_state_def cleanup_def stopVideoStream_def setSleepState_def Let_def)
  from t i show ?thesis by (simp add: e cleanup_fields)
qed

theorem missing_credential_fails_clean_witness:
  "\<not> truthy (API_KEY (demo_host\<lparr>API_KEY := None\<rparr>)) \<and> timers_inv demo_video \<and>
   error (connectToLive (demo_host\<lparr>API_KEY := None\<rparr>) (current_render demo_video) demo_video)
     = Some (ascii ''API Key faltante.'') \<and>
   sessionRef (connectToLive (demo_host\<lparr>API_KEY := None\<rparr>) (current_render demo_video) demo_video)
     = None \<and>
   timers (connectToLive (demo_host\<lparr>API_KEY := None\<rparr>) (current_render demo_video) demo_video)
     = Map.empty \<and>
   awaits (connectToLive (demo_host\<lparr>API_KEY := None\<rparr>) (current_render demo_video) demo_video)
     = awaits demo_video"
proof -
  have a: "\<not> truthy (API_KEY (demo_host\<lparr>API_KEY := None\<rparr>))" by (simp add: truthy_def)
  have b: "timers_inv demo_video"
    unfolding demo_video_def by (rule run_inv [OF timers_inv_initial])
  from missing_credential_fails_clean [OF a, of "current_render demo_video" demo_video] a b
  show ?thesis by blast
qed

section \<open>Frames while asleep\<close>

lemma tick_sends:
  assumes "timers s t = Some p" and "videoRef s = Some v"
    and "\<not> paused v" and "\<not> ended v" and "videoWidth v \<noteq> 0"
  shows "sent (step h (IntervalTick t b) s) = sent s @ [(p, VideoFrame b)]"
  using assms by (simp add: step_def frame_tick_def)

lemma onmessage_asleep_started:
  assumes "isSleepModeRef (voice_command h msg s)"
  shows "started (onmessage h msg now d s) = started s"
proof -
  from assms have "\<not> audible msg (voice_command h msg s)" by (simp add: audible_def)
  then show ?thesis
    by (simp add: onmessage_silent onmessage_interrupted_frame voice_command_started)
qed

text \<open>
  C9. With an installed timer and a video element that plays frames of non-zero width, a
  tick chains one JPEG frame on the session promise of the timer, whatever the sleep flag;
  entering sleep keeps the timer, the video element and the stream, and the tick after it
  sends the frame as well. What sleep does hold back is audio: a message after whose voice
  commands the session is asleep starts no source.
\<close>
theorem frames_sent_asleep_or_awake:
  assumes "timers s t = Some p" and "videoRef s = Some v"
    and "\<not> paused v" and "\<not> ended v" and "videoWidth v \<noteq> 0"
  shows "sent (step h (IntervalTick t b) s) = sent s @ [(p, VideoFrame b)] \<and>
         isSleepModeRef (setSleepState True s) \<and>
         timers (setSleepState True s) = timers s \<and>
         videoRef (setSleepState True s) = videoRef s \<and>
         streamRef (setSleepState True s) = streamRef s \<and>
         sent (step h (IntervalTick t b) (setSleepState True s)) = sent s @ [(p, VideoFrame b)] \<and>
         (isSleepModeRef (voice_command h msg s) \<longrightarrow>
            started (onmessage h msg now d s) = started s)"
proof -
  have "sent (step h (IntervalTick t b) (setSleepState True s)) =
      sent (setSleepState True s) @ [(p, VideoFrame b)]"
    by (rule tick_sends [OF _ _ assms(3-5)]) (simp_all add: setSleepState_frame assms)
  with tick_sends [OF assms] onmessage_asleep_started show ?thesis
    by (simp add: setSleepState_frame)
qed

theorem frames_sent_asleep_or_awake_witness:
  "timers demo_video 1 = Some 0 \<and>
   videoRef demo_video = Some \<lparr>srcObject = Some demo_stream, paused = False, ended = False,
     videoWidth = 640, videoHeight = 480\<rparr> \<and>
   isSleepModeRef (setSleepState True demo_video) \<and>
   sent (step demo_host (IntervalTick 1 (ascii ''/9j/'')) (setSleepState True demo_video)) =
     [(0, VideoFrame (ascii ''/9j/''))]"
proof -
  from frames_sent_asleep_or_awake [OF demo_video_eval(1) demo_video_eval(5),
      of demo_host "ascii ''/9j/''"] demo_video_eval(6)
  have "isSleepModeRef (setSleepState True demo_video) \<and>
    sent (step demo_host (IntervalTick 1 (ascii ''/9j/'')) (setSleepState True demo_video)) =
     [(0, VideoFrame (ascii ''/9j/''))]"
    by simp
  with demo_video_eval(1,5) show ?thesis by blast
qed

section \<open>Teardown and mute, evaluated\<close>

lemma demo_live_more:
  "isConnected demo_live" "micTracks demo_live = {7}" "stoppedTracks demo_live = {}"
  "connections demo_live = [\<lparr>conn_isMuted = False, conn_input = 1, processing = True\<rparr>]"
  "closedContexts demo_live = []" "isMuted demo_live = False" "sent demo_live = []"
  by (simp_all add: demo_defs)

lemma demo_playing_more:
  "isConnected demo_playing" "micTracks demo_playing = {7}" "stoppedTracks demo_playing = {}"
  "streamRef demo_playing = None" "closedContexts demo_playing = []"
  "audioContextRef demo_playing = Some 0" "inputContextRef demo_playing = Some 1"
  "length (awaits demo_playing) = 3" "contextCount demo_playing = 2"
  "connections demo_playing = [\<lparr>conn_isMuted = False, conn_input = 1, processing = True\<rparr>]"
  "isMuted demo_playing = False" "frameIntervalRef demo_playing = None"
  "videoRef demo_playing = Some \<lparr>srcObject = None, paused = True, ended = False,
                        videoWidth = 0, videoHeight = 0\<rparr>"
  "3 \<notin> settled demo_playing"
  by (simp_all add: demo_playing_def demo_chunk_def onmessage_def onmessage_begin_def
      onmessage_resume_def onmessage_interrupted_def voice_command_silent demo_live_eval
      demo_live_more truthy_def ascii_def current_render_def insert_commute)
     (simp_all add: demo_defs)

lemma demo_stopped_eval:
  "nextStartTimeRef demo_stopped = 4/5" "micTracks demo_stopped = {7}"
  "stoppedTracks demo_stopped = {}" "closedContexts demo_stopped = [0, 1]"
  "isConnected demo_stopped = False" "sessionRef demo_stopped = None"
  "isSleepModeRef demo_stopped = False"
  by (simp_all add: demo_stopped_def step_def handleMainToggle_def demo_playing_more
      cleanup_fields demo_playing_eval stopVideoStream_fields)
     (simp_all add: cleanup_def stopVideoStream_def Let_def demo_playing_more
        setSleepState_def demo_playing_eval)

lemma demo_stopped_more:
  "awaits demo_stopped = awaits demo_playing" "3 \<notin> settled demo_stopped"
  "contextCount demo_stopped = 2" "isMuted demo_stopped = False"
  "connections demo_stopped = [\<lparr>conn_isMuted = False, conn_input = 1, processing = True\<rparr>]"
  "started demo_stopped = [(0, 1/2), (1/2, 3/10)]" "streamRef demo_stopped = None"
  "audioContextRef demo_stopped = None" "inputContextRef demo_stopped = None"
  by (simp_all add: demo_stopped_def step_def handleMainToggle_def demo_playing_more
      cleanup_fields demo_playing_eval stopVideoStream_fields)
     (simp_all add: cleanup_def stopVideoStream_def Let_def demo_playing_more
        setSleepState_def demo_playing_eval)

lemma demo_restarted_eval:
  "audioContextRef demo_restarted = Some 2" "isSleepModeRef demo_restarted = False"
  "nextStartTimeRef demo_restarted = 4/5" "started demo_restarted = [(0, 1/2), (1/2, 3/10)]"
  "isConnected demo_restarted" "7 \<notin> stoppedTracks demo_restarted"
  by (simp_all add: demo_restarted_def run_def step_def handleMainToggle_def demo_stopped_eval
      demo_stopped_more connectToLive_def Let_def demo_host_def truthy_def ascii_def
      current_render_def settle_def demo_playing_more connectToLive_mic_def onopen_def updateVolume_def silence_def
      nth_append)

text \<open>
  C3, evaluated. The demo session is stopped from the main button while connected. The
  playback clock keeps its value 0.8, the microphone track 7 is never stopped, and the
  session is forgotten, not closed: a transcript it still delivers puts the stopped
  component to sleep. After a restart the first chunk, received at clock time 0 of the new
  context, is started at 0.8.
\<close>
theorem cleanup_leaves_clock_microphone_and_session:
  "isConnected demo_playing \<and>
   demo_stopped = cleanup demo_playing \<and>
   nextStartTimeRef demo_stopped = 4/5 \<and>
   7 \<in> micTracks demo_stopped \<and> 7 \<notin> stoppedTracks demo_stopped \<and>
   sessionRef demo_stopped = None \<and>
   isSleepModeRef (step demo_host (SessionMessage demo_sleep_request 1) demo_stopped) \<and>
   isConnected demo_restarted \<and> 7 \<notin> stoppedTracks demo_restarted \<and>
   started (onmessage demo_host demo_chunk 0 (Some \<lparr>frames = 12000, sampleRate = 24000\<rparr>)
              demo_restarted) = [(0, 1/2), (1/2, 3/10), (4/5, 1/2)]"
proof -
  have 1: "demo_stopped = cleanup demo_playing"
    by (simp add: demo_stopped_def step_def handleMainToggle_def demo_playing_more)
  have v: "voice_command demo_host demo_sleep_request demo_stopped = setSleepState True demo_stopped"
    by (rule voice_command_sleep [OF _ _ _ demo_sleep_phrase])
       (simp_all add: demo_stopped_eval demo_sleep_request_def ascii_def)
  have 2: "isSleepModeRef (step demo_host (SessionMessage demo_sleep_request 1) demo_stopped)"
    by (simp add: step_def onmessage_begin_def v Let_def setSleepState_frame
        onmessage_interrupted_frame)
  have a: "audible demo_chunk (voice_command demo_host demo_chunk demo_restarted)"
    by (simp add: audible_def voice_command_silent demo_chunk_def truthy_def ascii_def
        demo_restarted_eval)
  have 3: "started (onmessage demo_host demo_chunk 0
        (Some \<lparr>frames = 12000, sampleRate = 24000\<rparr>) demo_restarted) =
      [(0, 1/2), (1/2, 3/10), (4/5, 1/2)]"
    by (simp add: enqueue_chunk(1) [OF a] demo_restarted_eval duration_def)
  from 1 2 3 show ?thesis
    by (simp add: demo_playing_more demo_stopped_eval demo_restarted_eval)
qed

lemma demo_muted_eval:
  "isMuted demo_muted" "sent demo_muted = []" "isConnected demo_muted"
  "connections demo_muted = [\<lparr>conn_isMuted = False, conn_input = 1, processing = True\<rparr>]"
  "closedContexts demo_muted = []" "awaits demo_muted = awaits demo_live"
  "settled demo_muted = settled demo_live" "contextCount demo_muted = 2"
  "streamRef demo_muted = None"
  by (simp_all add: demo_muted_def step_def demo_live_more) (simp_all add: demo_defs)

lemma demo_unmuted_eval:
  "\<not> isMuted demo_unmuted" "sent demo_unmuted = []" "isConnected demo_unmuted"
  "connections demo_unmuted =
     [\<lparr>conn_isMuted = False, conn_input = 1, processing = True\<rparr>,
      \<lparr>conn_isMuted = True, conn_input = 3, processing = True\<rparr>]"
  "closedContexts demo_unmuted = [0, 1]"
  by (simp_all add: demo_unmuted_def demo_muted_def demo_defs cleanup_def stopVideoStream_def
      setSleepState_def Let_def)

text \<open>
  C6, evaluated. The session is muted after its transport has opened: the next block is
  sent all the same, since the capture callback holds the \<^verbatim>\<open>isMuted\<close> of the render
  that connected. A session started while muted sends nothing after it is unmuted.
\<close>
theorem mute_does_not_reach_the_capture_callback:
  "isMuted demo_muted \<and>
   sent (step demo_host (AudioProcess 0 (ascii ''AAAA'')) demo_muted) =
     [(0, AudioBlock (ascii ''AAAA''))] \<and>
   \<not> isMuted demo_unmuted \<and>
   sent (step demo_host (AudioProcess 1 (ascii ''AAAA'')) demo_unmuted) = []"
  by (simp add: step_def demo_muted_eval demo_unmuted_eval onaudioprocess_def)

section \<open>The playback schedule when the decoder settles at once\<close>
















lemma awaits_inv_settled: "awaits_inv (s\<lparr>settled := st\<rparr>) = ainv (awaits s) st"
  by (simp add: awaits_inv_def)




































end
